theory Spec2Isabelle
  imports Main
begin

section \<open>CreateFlowtable: the pipeline stage that builds a RHESSys flow table\<close>

text \<open>
  The program is the script \<^verbatim>\<open>bin/CreateFlowtable.py\<close>. It is modelled from the point
  where the command line has been parsed (\<^verbatim>\<open>args\<close>, \<^verbatim>\<open>cmdline\<close>), the \<^verbatim>\<open>Context\<close> has
  been built and the three metadata sections have been read (lines 103 to 115): these
  values are the arguments of the model. Everything from line 117 to line 206 is
  translated statement by statement.

  A run of the script is the list of the things it does to the world together with the
  way it ends: normally, or with the exception that stopped it. The library calls whose
  results the script uses are parameters of the model, and each of them may raise or never
  return. What is written to standard output is an event of the run; so is every call of
  the external tool and of the metadata store, recorded together with its outcome.
\<close>

subsection \<open>Data\<close>

text \<open>A metadata section is a Python dict from string keys to string values.\<close>

type_synonym dict = "string \<rightharpoonup> string"

text \<open>The \<^verbatim>\<open>argparse\<close> namespace of lines 90 to 103.\<close>

record args =
  configfile :: "string option"
  projectDir :: string
  routeRoads :: bool
  routeRoofs :: bool
  force :: bool
  verbose :: bool

text \<open>The one attribute of the \<^verbatim>\<open>Context\<close> object that the script reads.\<close>

record "context" =
  context_projectDir :: string

text \<open>The two attributes of the \<^verbatim>\<open>RHESSysPaths\<close> object that the script reads.\<close>

record rhessys_paths =
  RHESSYS_TEMPLATES :: string
  RHESSYS_FLOW :: string

text \<open>The arguments of the constructor call \<^verbatim>\<open>GRASSConfig(context, grassDbase, location, mapset)\<close>.\<close>

record grass_config =
  gc_context :: "context"
  gc_dbase :: string
  gc_location :: string
  gc_mapset :: string

text \<open>
  Every way the script can stop early: \<^verbatim>\<open>sys.exit(message)\<close>, the \<^verbatim>\<open>ValueError\<close> of
  \<^verbatim>\<open>float\<close> on a string that is not a number, the \<^verbatim>\<open>KeyError\<close> of a dict lookup, an
  exception raised inside a library call, and a library call that never returns (it waits
  for a lock, say): the script does not get past that call either.
\<close>

datatype error =
    SystemExit string
  | ValueError string
  | KeyError string
  | LibraryError string
  | Blocked string

text \<open>
  The positional and keyword arguments of the call of line 194. A Python value that may be
  \<^verbatim>\<open>None\<close> is an option. The type \<open>'f\<close> is the type of Python floats.
\<close>

record 'f cf_call =
  cf_prog :: string
  cf_out :: string
  cf_template :: string
  cf_dem :: string
  cf_slope :: string
  cf_stream :: string
  cf_road :: "string option"
  cf_roof :: "string option"
  cf_impervious :: "string option"
  cf_cellsize :: 'f

text \<open>
  What the script does to the world, in the order it does it: text written to standard
  output, the invocation of the external tool, the call that writes an entry to the RHESSys
  section of the metadata store, and the call that appends an item to the processing
  history. Each call is recorded together with what it gave back: \<open>Inr\<close> when it returned,
  \<open>Inl\<close> when it raised or never returned.
\<close>

datatype 'f event =
    Stdout string
  | ReadCommand "'f cf_call" "error + string option"
  | WriteRHESSysEntry "context" string string "error + unit"
  | AppendProcessingHistoryItem "context" string "error + unit"

text \<open>
  The library functions the script calls and whose results it uses. They are not part of
  the script, so they are parameters of the model:
  \<^item> \<open>py_float\<close> is Python's \<^verbatim>\<open>float\<close> on a string, \<open>None\<close> when it raises \<^verbatim>\<open>ValueError\<close>;
  \<^item> \<open>float_ne\<close> is \<^verbatim>\<open>!=\<close> on floats and \<open>format_f\<close> is \<^verbatim>\<open>"%f" % x\<close>;
  \<^item> \<open>os_path_join\<close> is \<^verbatim>\<open>os.path.join\<close> on two strings;
  \<^item> \<open>RHESSysPaths\<close> and \<open>GRASSLib\<close> are the two constructors, which may raise;
  \<^item> \<open>read_command\<close> is \<^verbatim>\<open>grassLib.script.read_command\<close>: it returns \<open>Inr None\<close> for
    Python's \<^verbatim>\<open>None\<close>, \<open>Inr (Some out)\<close> for any other value, or raises;
  \<^item> \<open>writeRHESSysEntry\<close> and \<open>appendProcessingHistoryItem\<close> are the calls to the metadata
    store of lines 202 to 206: \<open>Inr ()\<close> when the call returns, \<open>Inl\<close> when it raises or
    never returns.
\<close>

record ('f, 'l) env =
  py_float :: "string \<Rightarrow> 'f option"
  float_ne :: "'f \<Rightarrow> 'f \<Rightarrow> bool"
  format_f :: "'f \<Rightarrow> string"
  os_path_join :: "string \<Rightarrow> string \<Rightarrow> string"
  RHESSysPaths :: "string \<Rightarrow> string \<Rightarrow> error + rhessys_paths"
  GRASSLib :: "grass_config \<Rightarrow> error + 'l"
  read_command :: "'l \<Rightarrow> 'f cf_call \<Rightarrow> error + string option"
  writeRHESSysEntry :: "context \<Rightarrow> string \<Rightarrow> string \<Rightarrow> error + unit"
  appendProcessingHistoryItem :: "context \<Rightarrow> string \<Rightarrow> error + unit"

subsection \<open>Statements with effects\<close>

text \<open>
  A statement yields the events it caused and either the error that stopped it or its
  value. \<open>and_then\<close> is sequencing: an error stops the script and keeps the events so far.
\<close>

type_synonym ('f, 'a) run = "'f event list \<times> (error + 'a)"

definition ret :: "'a \<Rightarrow> ('f, 'a) run" where
  "ret x = ([], Inr x)"

definition emit :: "'f event \<Rightarrow> ('f, unit) run" where
  "emit ev = ([ev], Inr ())"

definition lift :: "error + 'a \<Rightarrow> ('f, 'a) run" where
  "lift r = ([], r)"

definition and_then :: "('f, 'a) run \<Rightarrow> ('a \<Rightarrow> ('f, 'b) run) \<Rightarrow> ('f, 'b) run" where
  "and_then m f =
     (case m of
        (es, Inl e) \<Rightarrow> (es, Inl e)
      | (es, Inr x) \<Rightarrow> (case f x of (es', r) \<Rightarrow> (es @ es', r)))"

text \<open>\<^verbatim>\<open>sys.exit(msg)\<close>, \<^verbatim>\<open>d[k]\<close>, \<^verbatim>\<open>float(s)\<close>, \<^verbatim>\<open>sys.stdout.write(s)\<close> and \<^verbatim>\<open>print(s)\<close>.\<close>

definition sys_exit :: "string \<Rightarrow> error + 'a" where
  "sys_exit msg = Inl (SystemExit msg)"

definition getitem :: "dict \<Rightarrow> string \<Rightarrow> error + string" where
  "getitem d k = (case d k of None \<Rightarrow> Inl (KeyError k) | Some v \<Rightarrow> Inr v)"

definition float_of :: "('f, 'l) env \<Rightarrow> string \<Rightarrow> error + 'f" where
  "float_of env s = (case py_float env s of None \<Rightarrow> Inl (ValueError s) | Some x \<Rightarrow> Inr x)"

definition stdout_write :: "string \<Rightarrow> ('f, unit) run" where
  "stdout_write s = emit (Stdout s)"

definition print :: "string \<Rightarrow> ('f, unit) run" where
  "print s = emit (Stdout (s @ [CHR 0x0A]))"

subsection \<open>Lines 117 to 154: the presence checks\<close>

text \<open>The message of every presence check: \<^verbatim>\<open>"Metadata in project directory %s does not contain " + what\<close>.\<close>

definition does_not_contain :: "context \<Rightarrow> string \<Rightarrow> string" where
  "does_not_contain context what =
     ''Metadata in project directory '' @ context_projectDir context @ '' does not contain '' @ what"

definition check_metadata :: "args \<Rightarrow> context \<Rightarrow> dict \<Rightarrow> dict \<Rightarrow> dict \<Rightarrow> error + unit" where
  "check_metadata args context studyArea grassMetadata metadata =
    (if studyArea ''dem_res_x'' = None then
       sys_exit (does_not_contain context ''a DEM x resolution'')
     else if studyArea ''dem_res_y'' = None then
       sys_exit (does_not_contain context ''a DEM y resolution'')
     else if metadata ''grass_dbase'' = None then
       sys_exit (does_not_contain context ''a GRASS Dbase'')
     else if metadata ''grass_location'' = None then
       sys_exit (does_not_contain context ''a GRASS location'')
     else if metadata ''grass_mapset'' = None then
       sys_exit (does_not_contain context ''a GRASS mapset'')
     else if metadata ''rhessys_dir'' = None then
       sys_exit (does_not_contain context ''a RHESSys directory'')
     else if metadata ''cf_bin'' = None then
       sys_exit (does_not_contain context ''a createflowpaths executable'')
     else if metadata ''worldfile'' = None then
       sys_exit (does_not_contain context ''a worldfile'')
     else if metadata ''template'' = None then
       sys_exit (does_not_contain context ''a template'')
     else if grassMetadata ''dem_rast'' = None then
       sys_exit (does_not_contain context ''a GRASS dataset with a DEM raster'')
     else if grassMetadata ''slope_rast'' = None then
       sys_exit (does_not_contain context ''a GRASS dataset with a slope raster'')
     else if grassMetadata ''streams_rast'' = None then
       sys_exit (does_not_contain context ''a GRASS dataset with a stream raster'')
     else if grassMetadata ''zero_rast'' = None then
       sys_exit (does_not_contain context ''a GRASS dataset with a zero raster'')
     else if routeRoads args \<and> grassMetadata ''roads_rast'' = None then
       sys_exit (does_not_contain context ''a GRASS dataset with a roads raster'')
     else if routeRoofs args \<and> grassMetadata ''roof_connectivity_rast'' = None then
       sys_exit (does_not_contain context ''a GRASS dataset with a roofs raster'')
     else if routeRoofs args \<and> grassMetadata ''impervious_rast'' = None then
       sys_exit (does_not_contain context ''a GRASS dataset with a impervious raster'')
     else Inr ())"

subsection \<open>Lines 156 to 206: the rest of the script\<close>

text \<open>Line 159: the format string \<^verbatim>\<open>"DEM x resolution (%f) does not match y resolution (%f)"\<close>.\<close>

definition mismatch_warning :: "('f, 'l) env \<Rightarrow> 'f \<Rightarrow> 'f \<Rightarrow> string" where
  "mismatch_warning env demResX demResY =
     ''DEM x resolution ('' @ format_f env demResX @ '') does not match y resolution (''
       @ format_f env demResY @ '')''"

text \<open>Lines 156 to 162: the two resolutions are converted and compared.\<close>

definition check_resolution :: "('f, 'l) env \<Rightarrow> args \<Rightarrow> dict \<Rightarrow> ('f, 'f) run" where
  "check_resolution env args studyArea =
     and_then (lift (getitem studyArea ''dem_res_x'')) (\<lambda>sx.
     and_then (lift (float_of env sx)) (\<lambda>demResX.
     and_then (lift (getitem studyArea ''dem_res_y'')) (\<lambda>sy.
     and_then (lift (float_of env sy)) (\<lambda>demResY.
     and_then
       (if float_ne env demResX demResY then
          and_then (stdout_write (mismatch_warning env demResX demResY))
            (\<lambda>_. if \<not> force args then lift (sys_exit ''Exiting.  Use --force option to override'')
                  else ret ())
        else ret ())
       (\<lambda>_. ret demResX)))))"

text \<open>
  Lines 164 to 168: the \<^verbatim>\<open>RHESSysPaths\<close> object and the GRASS library object are built.
\<close>

definition setup_libraries ::
  "('f, 'l) env \<Rightarrow> args \<Rightarrow> context \<Rightarrow> dict \<Rightarrow> ('f, rhessys_paths \<times> 'l) run" where
  "setup_libraries env args context metadata =
     and_then (lift (getitem metadata ''rhessys_dir'')) (\<lambda>rhessys_dir.
     and_then (lift (RHESSysPaths env (projectDir args) rhessys_dir)) (\<lambda>paths.
     and_then (lift (getitem metadata ''grass_dbase'')) (\<lambda>grass_dbase.
     and_then (lift (getitem metadata ''grass_location'')) (\<lambda>grass_location.
     and_then (lift (getitem metadata ''grass_mapset'')) (\<lambda>grass_mapset.
     and_then (lift (GRASSLib env
         \<lparr>gc_context = context,
          gc_dbase = os_path_join env (context_projectDir context) grass_dbase,
          gc_location = grass_location, gc_mapset = grass_mapset\<rparr>)) (\<lambda>grassLib.
     ret (paths, grassLib)))))))"

text \<open>
  Lines 185 to 191: the names of the two flow tables. In the source they are assigned in
  the two branches of \<^verbatim>\<open>if args.routeRoofs\<close>.
\<close>

definition surfaceFlowtable :: "args \<Rightarrow> string \<Rightarrow> string" where
  "surfaceFlowtable args flowTableNameBase =
     (if routeRoofs args then flowTableNameBase @ ''_surface.flow''
      else flowTableNameBase @ ''.flow'')"

definition subsurfaceFlowtable :: "args \<Rightarrow> string \<Rightarrow> string" where
  "subsurfaceFlowtable args flowTableNameBase =
     (if routeRoofs args then flowTableNameBase @ ''_subsurface.flow''
      else flowTableNameBase @ ''.flow'')"

text \<open>
  Lines 202 to 206: the two entries are written and the command line is appended to the
  history. Each call to the store is made, recorded with its outcome, and stops the script
  when it does not return normally.
\<close>

definition write_entry :: "('f, 'l) env \<Rightarrow> context \<Rightarrow> string \<Rightarrow> string \<Rightarrow> ('f, unit) run" where
  "write_entry env context k v =
     (let result = writeRHESSysEntry env context k v
      in and_then (emit (WriteRHESSysEntry context k v result)) (\<lambda>_. lift result))"

definition append_history :: "('f, 'l) env \<Rightarrow> context \<Rightarrow> string \<Rightarrow> ('f, unit) run" where
  "append_history env context item =
     (let result = appendProcessingHistoryItem env context item
      in and_then (emit (AppendProcessingHistoryItem context item result)) (\<lambda>_. lift result))"

definition write_postconditions ::
  "('f, 'l) env \<Rightarrow> args \<Rightarrow> string \<Rightarrow> context \<Rightarrow> string \<Rightarrow> ('f, unit) run" where
  "write_postconditions env args cmdline context flowTableNameBase =
     and_then (write_entry env context ''surface_flowtable''
                 (surfaceFlowtable args flowTableNameBase)) (\<lambda>_.
     and_then (write_entry env context ''subsurface_flowtable''
                 (subsurfaceFlowtable args flowTableNameBase)) (\<lambda>_.
     append_history env context cmdline))"

text \<open>The whole script from line 117 on.\<close>

definition CreateFlowtable ::
  "('f, 'l) env \<Rightarrow> args \<Rightarrow> string \<Rightarrow> context \<Rightarrow> dict \<Rightarrow> dict \<Rightarrow> dict \<Rightarrow> ('f, unit) run" where
  "CreateFlowtable env args cmdline context studyArea grassMetadata metadata =
     and_then (lift (check_metadata args context studyArea grassMetadata metadata)) (\<lambda>_.
     and_then (check_resolution env args studyArea) (\<lambda>demResX.
     and_then (setup_libraries env args context metadata) (\<lambda>(paths, grassLib).
     \<comment> \<open>lines 170 to 175\<close>
     and_then (lift (getitem metadata ''cf_bin'')) (\<lambda>cf_bin.
     and_then (lift (getitem metadata ''template'')) (\<lambda>template.
     and_then (print (os_path_join env (RHESSYS_TEMPLATES paths) template)) (\<lambda>_.
     and_then (lift (getitem metadata ''worldfile'')) (\<lambda>flowTableNameBase.
     and_then (print (os_path_join env (RHESSYS_FLOW paths) flowTableNameBase)) (\<lambda>_.
     \<comment> \<open>lines 177 to 181\<close>
     and_then (lift (if routeRoads args then getitem grassMetadata ''roads_rast''
                     else getitem grassMetadata ''zero_rast'')) (\<lambda>roads.
     \<comment> \<open>lines 183 to 191\<close>
     and_then (lift (if routeRoofs args
                     then map_sum id Some (getitem grassMetadata ''roof_connectivity_rast'')
                     else Inr None)) (\<lambda>roofs.
     and_then (lift (if routeRoofs args
                     then map_sum id Some (getitem grassMetadata ''impervious_rast'')
                     else Inr None)) (\<lambda>impervious.
     \<comment> \<open>lines 194 to 201\<close>
     and_then (lift (getitem grassMetadata ''dem_rast'')) (\<lambda>dem_rast.
     and_then (lift (getitem grassMetadata ''slope_rast'')) (\<lambda>slope_rast.
     and_then (lift (getitem grassMetadata ''streams_rast'')) (\<lambda>streams_rast.
     (let call = \<lparr>cf_prog = os_path_join env (context_projectDir context) cf_bin,
                  cf_out = os_path_join env (RHESSYS_FLOW paths) flowTableNameBase,
                  cf_template = os_path_join env (RHESSYS_TEMPLATES paths) template,
                  cf_dem = dem_rast, cf_slope = slope_rast, cf_stream = streams_rast,
                  cf_road = Some roads, cf_roof = roofs, cf_impervious = impervious,
                  cf_cellsize = demResX\<rparr>;
          result = read_command env grassLib call
      in
     and_then (emit (ReadCommand call result)) (\<lambda>_.
     and_then (lift result) (\<lambda>result.
     and_then (if result = None
               then lift (sys_exit (''createflowpaths failed, returning '' @ ''None''))
               else ret ()) (\<lambda>_.
     \<comment> \<open>lines 202 to 206\<close>
     write_postconditions env args cmdline context flowTableNameBase))))))))))))))))))"

subsection \<open>Observations on a run\<close>

text \<open>
  The invocations of the external tool with their results, the metadata entries written
  (key and value) and the history items appended, each in the order of the run. An entry is
  written, and an item appended, when the call to the store returned.
\<close>

fun cf_calls :: "'f event list \<Rightarrow> ('f cf_call \<times> (error + string option)) list" where
  "cf_calls [] = []"
| "cf_calls (ReadCommand c r # es) = (c, r) # cf_calls es"
| "cf_calls (_ # es) = cf_calls es"

fun entries_written :: "'f event list \<Rightarrow> (string \<times> string) list" where
  "entries_written [] = []"
| "entries_written (WriteRHESSysEntry _ k v (Inr _) # es) = (k, v) # entries_written es"
| "entries_written (_ # es) = entries_written es"

fun history_appended :: "'f event list \<Rightarrow> string list" where
  "history_appended [] = []"
| "history_appended (AppendProcessingHistoryItem _ s (Inr _) # es) = s # history_appended es"
| "history_appended (_ # es) = history_appended es"

subsection \<open>The required keys as a table\<close>

text \<open>
  The specification speaks of a fixed list of required keys per section, the unconditional
  ones first. This is that list, written independently of \<open>check_metadata\<close>: each row is
  the section, the key and the words by which the abort message names the key.
\<close>

datatype metadata_section = StudyArea | RHESSys | GRASS

type_synonym required_key = "metadata_section \<times> string \<times> string"

definition unconditional_keys :: "required_key list" where
  "unconditional_keys =
     [(StudyArea, ''dem_res_x'', ''a DEM x resolution''),
      (StudyArea, ''dem_res_y'', ''a DEM y resolution''),
      (RHESSys, ''grass_dbase'', ''a GRASS Dbase''),
      (RHESSys, ''grass_location'', ''a GRASS location''),
      (RHESSys, ''grass_mapset'', ''a GRASS mapset''),
      (RHESSys, ''rhessys_dir'', ''a RHESSys directory''),
      (RHESSys, ''cf_bin'', ''a createflowpaths executable''),
      (RHESSys, ''worldfile'', ''a worldfile''),
      (RHESSys, ''template'', ''a template''),
      (GRASS, ''dem_rast'', ''a GRASS dataset with a DEM raster''),
      (GRASS, ''slope_rast'', ''a GRASS dataset with a slope raster''),
      (GRASS, ''streams_rast'', ''a GRASS dataset with a stream raster''),
      (GRASS, ''zero_rast'', ''a GRASS dataset with a zero raster'')]"

definition conditional_keys :: "args \<Rightarrow> required_key list" where
  "conditional_keys args =
     (if routeRoads args then [(GRASS, ''roads_rast'', ''a GRASS dataset with a roads raster'')]
      else [])
     @ (if routeRoofs args
        then [(GRASS, ''roof_connectivity_rast'', ''a GRASS dataset with a roofs raster''),
              (GRASS, ''impervious_rast'', ''a GRASS dataset with a impervious raster'')]
        else [])"

definition required_keys :: "args \<Rightarrow> required_key list" where
  "required_keys args = unconditional_keys @ conditional_keys args"

fun section_entries :: "dict \<Rightarrow> dict \<Rightarrow> dict \<Rightarrow> metadata_section \<Rightarrow> dict" where
  "section_entries studyArea grassMetadata metadata StudyArea = studyArea"
| "section_entries studyArea grassMetadata metadata RHESSys = metadata"
| "section_entries studyArea grassMetadata metadata GRASS = grassMetadata"

fun is_missing :: "dict \<Rightarrow> dict \<Rightarrow> dict \<Rightarrow> required_key \<Rightarrow> bool" where
  "is_missing studyArea grassMetadata metadata (sec, k, what) =
     (section_entries studyArea grassMetadata metadata sec k = None)"

subsection \<open>A concrete project\<close>

text \<open>
  A small project on which the theorems below are instantiated. Floats are represented by
  their decimal literal; \<open>format_f0\<close> pads to the six decimals of \<^verbatim>\<open>%f\<close>. The paths object
  puts the templates and the flow tables in sub-directories of the RHESSys directory.
\<close>

definition py_float0 :: "string \<Rightarrow> string option" where
  "py_float0 s = (if s = ''10.0'' \<or> s = ''10.5'' then Some s else None)"

definition format_f0 :: "string \<Rightarrow> string" where
  "format_f0 x = x @ ''00000''"

definition join0 :: "string \<Rightarrow> string \<Rightarrow> string" where
  "join0 a b = a @ ''/'' @ b"

definition RHESSysPaths0 :: "string \<Rightarrow> string \<Rightarrow> error + rhessys_paths" where
  "RHESSysPaths0 basedir rhessysDir =
     Inr \<lparr>RHESSYS_TEMPLATES = join0 (join0 basedir rhessysDir) ''templates'',
          RHESSYS_FLOW = join0 (join0 basedir rhessysDir) ''flow''\<rparr>"

definition env0 :: "string option \<Rightarrow> (string, grass_config) env" where
  "env0 cf_result =
     \<lparr>py_float = py_float0, float_ne = (\<lambda>x y. x \<noteq> y), format_f = format_f0,
      os_path_join = join0, RHESSysPaths = RHESSysPaths0, GRASSLib = Inr,
      read_command = (\<lambda>grassLib call. Inr cf_result),
      writeRHESSysEntry = (\<lambda>context k v. Inr ()),
      appendProcessingHistoryItem = (\<lambda>context item. Inr ())\<rparr>"

text \<open>
  The same environment with a metadata store whose file is locked: the tool returns a value
  and the call that writes an entry never returns.
\<close>

definition env_locked :: "(string, grass_config) env" where
  "env_locked =
     (env0 (Some ''ok''))\<lparr>writeRHESSysEntry := (\<lambda>context k v. Inl (Blocked ''lock''))\<rparr>"

definition args0 :: "bool \<Rightarrow> bool \<Rightarrow> bool \<Rightarrow> args" where
  "args0 roads roofs f =
     \<lparr>configfile = None, projectDir = ''/proj'', routeRoads = roads, routeRoofs = roofs,
      force = f, verbose = False\<rparr>"

definition context0 :: "context" where
  "context0 = \<lparr>context_projectDir = ''/proj''\<rparr>"

definition cmdline0 :: string where
  "cmdline0 = ''CreateFlowtable.py -p /proj''"

definition studyArea0 :: "string \<Rightarrow> dict" where
  "studyArea0 y = map_of [(''dem_res_x'', ''10.0''), (''dem_res_y'', y)]"

definition metadata0 :: dict where
  "metadata0 = map_of
     [(''grass_dbase'', ''GRASSData''), (''grass_location'', ''default''),
      (''grass_mapset'', ''PERMANENT''), (''rhessys_dir'', ''rhessys''),
      (''cf_bin'', ''rhessys/bin/cf''), (''worldfile'', ''world''),
      (''template'', ''template'')]"

definition grassMetadata0 :: dict where
  "grassMetadata0 = map_of
     [(''dem_rast'', ''dem''), (''slope_rast'', ''slope''), (''streams_rast'', ''streams''),
      (''zero_rast'', ''zero''), (''roads_rast'', ''roads''),
      (''roof_connectivity_rast'', ''roofs''), (''impervious_rast'', ''impervious'')]"

definition call0 :: "args \<Rightarrow> string cf_call" where
  "call0 args =
     \<lparr>cf_prog = ''/proj/rhessys/bin/cf'', cf_out = ''/proj/rhessys/flow/world'',
      cf_template = ''/proj/rhessys/templates/template'',
      cf_dem = ''dem'', cf_slope = ''slope'', cf_stream = ''streams'',
      cf_road = Some (if routeRoads args then ''roads'' else ''zero''),
      cf_roof = (if routeRoofs args then Some ''roofs'' else None),
      cf_impervious = (if routeRoofs args then Some ''impervious'' else None),
      cf_cellsize = ''10.0''\<rparr>"

section \<open>Properties\<close>

subsection \<open>Sequencing\<close>

lemma and_then_simps:
  "and_then (es, Inl e) f = (es, Inl e)"
  "and_then (es, Inr x) f = apfst ((@) es) (f x)"
  by (simp_all add: and_then_def split: prod.splits)

lemmas run_defs = lift_def ret_def emit_def print_def stdout_write_def sys_exit_def

subsection \<open>The presence checks\<close>

text \<open>The checks either pass or exit with the message of one of them.\<close>

lemma if_exit_Inr_iff:
  "(if c then sys_exit m else r) = Inr () \<longleftrightarrow> \<not> c \<and> r = Inr ()"
  by (simp add: sys_exit_def)

lemma check_metadata_Inr_iff:
  "check_metadata args context studyArea grassMetadata metadata = Inr () \<longleftrightarrow>
     studyArea ''dem_res_x'' \<noteq> None \<and> studyArea ''dem_res_y'' \<noteq> None \<and>
     metadata ''grass_dbase'' \<noteq> None \<and> metadata ''grass_location'' \<noteq> None \<and>
     metadata ''grass_mapset'' \<noteq> None \<and> metadata ''rhessys_dir'' \<noteq> None \<and>
     metadata ''cf_bin'' \<noteq> None \<and> metadata ''worldfile'' \<noteq> None \<and>
     metadata ''template'' \<noteq> None \<and>
     grassMetadata ''dem_rast'' \<noteq> None \<and> grassMetadata ''slope_rast'' \<noteq> None \<and>
     grassMetadata ''streams_rast'' \<noteq> None \<and> grassMetadata ''zero_rast'' \<noteq> None \<and>
     (routeRoads args \<longrightarrow> grassMetadata ''roads_rast'' \<noteq> None) \<and>
     (routeRoofs args \<longrightarrow> grassMetadata ''roof_connectivity_rast'' \<noteq> None
                          \<and> grassMetadata ''impervious_rast'' \<noteq> None)"
  unfolding check_metadata_def if_exit_Inr_iff
  by (simp only: simp_thms de_Morgan_conj imp_conv_disj disj_conj_distribL)

text \<open>The if-chain of the script is a search through the table of required keys.\<close>

lemma find_step:
  "(case find P (x # xs) of None \<Rightarrow> a | Some y \<Rightarrow> f y) =
     (if P x then f x else (case find P xs of None \<Rightarrow> a | Some y \<Rightarrow> f y))"
  by simp

lemma check_metadata_find:
  "check_metadata args context studyArea grassMetadata metadata =
     (case find (is_missing studyArea grassMetadata metadata) (required_keys args) of
        None \<Rightarrow> Inr ()
      | Some (sec, k, what) \<Rightarrow> Inl (SystemExit (does_not_contain context what)))"
proof (cases "routeRoads args"; cases "routeRoofs args")
  assume flags: "routeRoads args" "routeRoofs args"
  show ?thesis
    unfolding check_metadata_def required_keys_def unconditional_keys_def conditional_keys_def
      sys_exit_def
    by (simp only: flags if_True if_False append.simps find_step find.simps(1) option.case
        is_missing.simps section_entries.simps prod.case simp_thms)
next
  assume flags: "routeRoads args" "\<not> routeRoofs args"
  show ?thesis
    unfolding check_metadata_def required_keys_def unconditional_keys_def conditional_keys_def
      sys_exit_def
    by (simp only: flags if_True if_False append.simps find_step find.simps(1) option.case
        is_missing.simps section_entries.simps prod.case simp_thms)
next
  assume flags: "\<not> routeRoads args" "routeRoofs args"
  show ?thesis
    unfolding check_metadata_def required_keys_def unconditional_keys_def conditional_keys_def
      sys_exit_def
    by (simp only: flags if_True if_False append.simps find_step find.simps(1) option.case
        is_missing.simps section_entries.simps prod.case simp_thms)
next
  assume flags: "\<not> routeRoads args" "\<not> routeRoofs args"
  show ?thesis
    unfolding check_metadata_def required_keys_def unconditional_keys_def conditional_keys_def
      sys_exit_def
    by (simp only: flags if_True if_False append.simps find_step find.simps(1) option.case
        is_missing.simps section_entries.simps prod.case simp_thms)
qed

lemma find_append:
  "find P (xs @ ys) = (case find P xs of None \<Rightarrow> find P ys | Some x \<Rightarrow> Some x)"
  by (induction xs) simp_all

lemma find_Some_in_set: "find P xs = Some x \<Longrightarrow> x \<in> set xs \<and> P x"
  by (induction xs) (auto split: if_splits)

lemma find_exists: "x \<in> set xs \<Longrightarrow> P x \<Longrightarrow> \<exists>y. find P xs = Some y"
  by (induction xs) auto

text \<open>A missing unconditional key stops the checks at an unconditional key.\<close>

lemma check_metadata_unconditional:
  assumes "(sec, k, what) \<in> set unconditional_keys"
    and "section_entries studyArea grassMetadata metadata sec k = None"
  shows "\<exists>sec' k' what'. (sec', k', what') \<in> set unconditional_keys \<and>
           section_entries studyArea grassMetadata metadata sec' k' = None \<and>
           check_metadata args context studyArea grassMetadata metadata
             = Inl (SystemExit (does_not_contain context what'))"
proof -
  let ?P = "is_missing studyArea grassMetadata metadata"
  have "?P (sec, k, what)"
    using assms(2) by (simp only: is_missing.simps)
  from find_exists [OF assms(1), of ?P, OF this]
  obtain y where y: "find ?P unconditional_keys = Some y" ..
  obtain sec' k' what' where y': "y = (sec', k', what')"
    by (cases y)
  from find_Some_in_set [OF y]
  have in_set: "(sec', k', what') \<in> set unconditional_keys"
    and miss: "section_entries studyArea grassMetadata metadata sec' k' = None"
    unfolding y' by (simp_all only: is_missing.simps)
  have "check_metadata args context studyArea grassMetadata metadata
             = Inl (SystemExit (does_not_contain context what'))"
    unfolding check_metadata_find required_keys_def find_append y y'
    by (simp only: option.case prod.case)
  with in_set miss show ?thesis by blast
qed

subsection \<open>The resolution check and the library set-up\<close>

lemma check_resolution_eq:
  assumes "studyArea ''dem_res_x'' = Some sx" and "studyArea ''dem_res_y'' = Some sy"
  shows "check_resolution env args studyArea =
          (case py_float env sx of
             None \<Rightarrow> ([], Inl (ValueError sx))
           | Some x \<Rightarrow>
              (case py_float env sy of
                 None \<Rightarrow> ([], Inl (ValueError sy))
               | Some y \<Rightarrow>
                  if float_ne env x y
                  then ([Stdout (mismatch_warning env x y)],
                        if force args then Inr x
                        else Inl (SystemExit ''Exiting.  Use --force option to override''))
                  else ([], Inr x)))"
  using assms
  by (simp add: check_resolution_def and_then_simps run_defs getitem_def float_of_def
      split: option.splits)

lemma check_resolution_trace:
  assumes "studyArea ''dem_res_x'' = Some sx" and "studyArea ''dem_res_y'' = Some sy"
    and "check_resolution env args studyArea = (w, r)"
  shows "w = [] \<or> (\<exists>s. w = [Stdout s])"
  using assms(3) unfolding check_resolution_eq [OF assms(1,2)]
  by (auto split: option.splits if_splits)

lemma setup_libraries_eq:
  assumes "metadata ''rhessys_dir'' = Some rhessys_dir"
    and "metadata ''grass_dbase'' = Some grass_dbase"
    and "metadata ''grass_location'' = Some grass_location"
    and "metadata ''grass_mapset'' = Some grass_mapset"
  shows "setup_libraries env args context metadata =
          (case RHESSysPaths env (projectDir args) rhessys_dir of
             Inl e \<Rightarrow> ([], Inl e)
           | Inr paths \<Rightarrow>
              (case GRASSLib env
                      \<lparr>gc_context = context,
                       gc_dbase = os_path_join env (context_projectDir context) grass_dbase,
                       gc_location = grass_location, gc_mapset = grass_mapset\<rparr> of
                 Inl e \<Rightarrow> ([], Inl e)
               | Inr grassLib \<Rightarrow> ([], Inr (paths, grassLib))))"
  using assms
  by (simp add: setup_libraries_def and_then_simps run_defs getitem_def split: sum.splits)

lemma setup_libraries_trace:
  assumes "metadata ''rhessys_dir'' = Some rhessys_dir"
    and "metadata ''grass_dbase'' = Some grass_dbase"
    and "metadata ''grass_location'' = Some grass_location"
    and "metadata ''grass_mapset'' = Some grass_mapset"
  shows "fst (setup_libraries env args context metadata) = []"
  unfolding setup_libraries_eq [OF assms]
  by (simp split: sum.splits)

subsection \<open>The calls to the metadata store\<close>

text \<open>Lines 202 to 206 stop at the first call to the store that does not return.\<close>

lemma write_postconditions_eq:
  "write_postconditions env args cmdline context base =
     (case writeRHESSysEntry env context ''surface_flowtable'' (surfaceFlowtable args base) of
        Inl e \<Rightarrow>
          ([WriteRHESSysEntry context ''surface_flowtable'' (surfaceFlowtable args base)
              (Inl e)], Inl e)
      | Inr u \<Rightarrow>
         (case writeRHESSysEntry env context ''subsurface_flowtable''
                 (subsurfaceFlowtable args base) of
            Inl e \<Rightarrow>
              ([WriteRHESSysEntry context ''surface_flowtable'' (surfaceFlowtable args base)
                  (Inr u),
                WriteRHESSysEntry context ''subsurface_flowtable''
                  (subsurfaceFlowtable args base) (Inl e)], Inl e)
          | Inr u' \<Rightarrow>
              ([WriteRHESSysEntry context ''surface_flowtable'' (surfaceFlowtable args base)
                  (Inr u),
                WriteRHESSysEntry context ''subsurface_flowtable''
                  (subsurfaceFlowtable args base) (Inr u'),
                AppendProcessingHistoryItem context cmdline
                  (appendProcessingHistoryItem env context cmdline)],
               appendProcessingHistoryItem env context cmdline)))"
  by (simp add: write_postconditions_def write_entry_def append_history_def Let_def
      and_then_simps emit_def lift_def split: sum.splits)

lemma write_postconditions_returned:
  assumes "writeRHESSysEntry env context ''surface_flowtable'' (surfaceFlowtable args base)
             = Inr ()"
    and "writeRHESSysEntry env context ''subsurface_flowtable''
             (subsurfaceFlowtable args base) = Inr ()"
    and "appendProcessingHistoryItem env context cmdline = Inr ()"
  shows "write_postconditions env args cmdline context base =
     ([WriteRHESSysEntry context ''surface_flowtable'' (surfaceFlowtable args base) (Inr ()),
       WriteRHESSysEntry context ''subsurface_flowtable'' (subsurfaceFlowtable args base)
         (Inr ()),
       AppendProcessingHistoryItem context cmdline (Inr ())], Inr ())"
  unfolding write_postconditions_eq by (simp add: assms)

lemma write_postconditions_calls:
  "cf_calls (fst (write_postconditions env args cmdline context base)) = []"
  unfolding write_postconditions_eq by (simp split: sum.splits)

lemma write_postconditions_entries:
  "entries_written (fst (write_postconditions env args cmdline context base)) = []
   \<or> entries_written (fst (write_postconditions env args cmdline context base)) =
       [(''surface_flowtable'', surfaceFlowtable args base)]
   \<or> entries_written (fst (write_postconditions env args cmdline context base)) =
       [(''surface_flowtable'', surfaceFlowtable args base),
        (''subsurface_flowtable'', subsurfaceFlowtable args base)]"
  unfolding write_postconditions_eq by (simp split: sum.splits)

lemma apfst_write_postconditions:
  "apfst f (write_postconditions env args cmdline context base) =
     (f (fst (write_postconditions env args cmdline context base)),
      snd (write_postconditions env args cmdline context base))"
  by (cases "write_postconditions env args cmdline context base") simp

subsection \<open>The shape of every run\<close>

lemma CreateFlowtable_check_failed:
  "check_metadata args context studyArea grassMetadata metadata = Inl e \<Longrightarrow>
   CreateFlowtable env args cmdline context studyArea grassMetadata metadata = ([], Inl e)"
  by (simp add: CreateFlowtable_def lift_def and_then_simps)

lemma CreateFlowtable_resolution_failed:
  "check_metadata args context studyArea grassMetadata metadata = Inr () \<Longrightarrow>
   check_resolution env args studyArea = (w, Inl e) \<Longrightarrow>
   CreateFlowtable env args cmdline context studyArea grassMetadata metadata = (w, Inl e)"
  by (simp add: CreateFlowtable_def lift_def and_then_simps)

lemma CreateFlowtable_setup_failed:
  "check_metadata args context studyArea grassMetadata metadata = Inr () \<Longrightarrow>
   check_resolution env args studyArea = (w, Inr demResX) \<Longrightarrow>
   setup_libraries env args context metadata = ([], Inl e) \<Longrightarrow>
   CreateFlowtable env args cmdline context studyArea grassMetadata metadata = (w, Inl e)"
  by (simp add: CreateFlowtable_def lift_def and_then_simps)

text \<open>
  When the checks pass and the libraries are set up, the tool is invoked once, and what
  follows depends on its result alone.
\<close>

lemma CreateFlowtable_invokes:
  assumes chk: "check_metadata args context studyArea grassMetadata metadata = Inr ()"
    and res: "check_resolution env args studyArea = (w, Inr demResX)"
    and libs: "setup_libraries env args context metadata = ([], Inr (paths, grassLib))"
    and cf: "metadata ''cf_bin'' = Some cf_bin"
    and tpl: "metadata ''template'' = Some template"
    and wf: "metadata ''worldfile'' = Some base"
    and dem: "grassMetadata ''dem_rast'' = Some dem_rast"
    and slope: "grassMetadata ''slope_rast'' = Some slope_rast"
    and streams: "grassMetadata ''streams_rast'' = Some streams_rast"
    and zero: "grassMetadata ''zero_rast'' = Some zero_rast"
    and call: "call =
       \<lparr>cf_prog = os_path_join env (context_projectDir context) cf_bin,
        cf_out = os_path_join env (RHESSYS_FLOW paths) base,
        cf_template = os_path_join env (RHESSYS_TEMPLATES paths) template,
        cf_dem = dem_rast, cf_slope = slope_rast, cf_stream = streams_rast,
        cf_road = (if routeRoads args then grassMetadata ''roads_rast'' else Some zero_rast),
        cf_roof = (if routeRoofs args then grassMetadata ''roof_connectivity_rast'' else None),
        cf_impervious = (if routeRoofs args then grassMetadata ''impervious_rast'' else None),
        cf_cellsize = demResX\<rparr>"
  shows "CreateFlowtable env args cmdline context studyArea grassMetadata metadata =
     (w @ [Stdout (os_path_join env (RHESSYS_TEMPLATES paths) template @ [CHR 0x0A]),
           Stdout (os_path_join env (RHESSYS_FLOW paths) base @ [CHR 0x0A]),
           ReadCommand call (read_command env grassLib call)]
        @ (case read_command env grassLib call of
             Inr (Some out) \<Rightarrow> fst (write_postconditions env args cmdline context base)
           | _ \<Rightarrow> []),
      case read_command env grassLib call of
        Inl e \<Rightarrow> Inl e
      | Inr None \<Rightarrow> Inl (SystemExit ''createflowpaths failed, returning None'')
      | Inr (Some out) \<Rightarrow> snd (write_postconditions env args cmdline context base))"
proof -
  from chk obtain rr where roads: "routeRoads args \<Longrightarrow> grassMetadata ''roads_rast'' = Some rr"
    unfolding check_metadata_Inr_iff by (cases "routeRoads args") auto
  from chk obtain rf where
    roofs: "routeRoofs args \<Longrightarrow> grassMetadata ''roof_connectivity_rast'' = Some rf"
    unfolding check_metadata_Inr_iff by (cases "routeRoofs args") auto
  from chk obtain im where imp: "routeRoofs args \<Longrightarrow> grassMetadata ''impervious_rast'' = Some im"
    unfolding check_metadata_Inr_iff by (cases "routeRoofs args") auto
  show ?thesis
    using roads roofs imp
    by (cases "read_command env grassLib call"; cases "routeRoads args"; cases "routeRoofs args")
       (simp_all add: CreateFlowtable_def chk res libs cf tpl wf dem slope streams zero call
          getitem_def and_then_simps run_defs Let_def apfst_write_postconditions
        split: option.splits)
qed

text \<open>Every run either stops before the tool is invoked or is a run of the lemma above.\<close>

lemma CreateFlowtable_cases [case_names aborted invoked]:
  fixes env :: "('f, 'l) env"
  obtains (aborted) w e where
      "CreateFlowtable env args cmdline context studyArea grassMetadata metadata = (w, Inl e)"
      "w = [] \<or> (\<exists>s. w = [Stdout s])"
  | (invoked) w demResX paths grassLib cf_bin template base dem_rast slope_rast streams_rast
      zero_rast where
      "check_metadata args context studyArea grassMetadata metadata = Inr ()"
      "check_resolution env args studyArea = (w, Inr demResX)"
      "setup_libraries env args context metadata = ([], Inr (paths, grassLib))"
      "metadata ''cf_bin'' = Some cf_bin"
      "metadata ''template'' = Some template"
      "metadata ''worldfile'' = Some base"
      "grassMetadata ''dem_rast'' = Some dem_rast"
      "grassMetadata ''slope_rast'' = Some slope_rast"
      "grassMetadata ''streams_rast'' = Some streams_rast"
      "grassMetadata ''zero_rast'' = Some zero_rast"
      "w = [] \<or> (\<exists>s. w = [Stdout s])"
proof (cases "check_metadata args context studyArea grassMetadata metadata")
  case (Inl e)
  then show ?thesis
    using aborted CreateFlowtable_check_failed by blast
next
  case (Inr u)
  then have chk: "check_metadata args context studyArea grassMetadata metadata = Inr ()"
    by simp
  from chk [unfolded check_metadata_Inr_iff]
  obtain sx sy rhessys_dir grass_dbase grass_location grass_mapset cf_bin template base
      dem_rast slope_rast streams_rast zero_rast where
      keys: "studyArea ''dem_res_x'' = Some sx" "studyArea ''dem_res_y'' = Some sy"
      "metadata ''rhessys_dir'' = Some rhessys_dir"
      "metadata ''grass_dbase'' = Some grass_dbase"
      "metadata ''grass_location'' = Some grass_location"
      "metadata ''grass_mapset'' = Some grass_mapset"
      "metadata ''cf_bin'' = Some cf_bin"
      "metadata ''template'' = Some template"
      "metadata ''worldfile'' = Some base"
      "grassMetadata ''dem_rast'' = Some dem_rast"
      "grassMetadata ''slope_rast'' = Some slope_rast"
      "grassMetadata ''streams_rast'' = Some streams_rast"
      "grassMetadata ''zero_rast'' = Some zero_rast"
    by blast
  obtain w r where res: "check_resolution env args studyArea = (w, r)"
    by (cases "check_resolution env args studyArea")
  have w: "w = [] \<or> (\<exists>s. w = [Stdout s])"
    using check_resolution_trace [OF keys(1,2) res] .
  obtain v s where libs0: "setup_libraries env args context metadata = (v, s)"
    by (cases "setup_libraries env args context metadata")
  have "fst (setup_libraries env args context metadata) = []"
    by (rule setup_libraries_trace [OF keys(3-6)])
  with libs0 have libs: "setup_libraries env args context metadata = ([], s)"
    by simp
  show ?thesis
  proof (cases r)
    case (Inl e)
    with chk res w show ?thesis
      using aborted CreateFlowtable_resolution_failed by blast
  next
    case r: (Inr demResX)
    show ?thesis
    proof (cases s)
      case (Inl e)
      from CreateFlowtable_setup_failed [OF chk res [unfolded r] libs [unfolded Inl]] w
      show ?thesis using aborted by blast
    next
      case (Inr pl)
      obtain paths grassLib where pl: "pl = (paths, grassLib)"
        by (cases pl)
      show ?thesis
        by (rule invoked [OF chk res [unfolded r] libs [unfolded Inr pl] keys(7-13) w])
    qed
  qed
qed

subsection \<open>What a run shows\<close>

lemma cf_calls_append: "cf_calls (xs @ ys) = cf_calls xs @ cf_calls ys"
  by (induction xs rule: cf_calls.induct) simp_all

lemma entries_written_append:
  "entries_written (xs @ ys) = entries_written xs @ entries_written ys"
  by (induction xs rule: entries_written.induct) simp_all

lemma history_appended_append:
  "history_appended (xs @ ys) = history_appended xs @ history_appended ys"
  by (induction xs rule: history_appended.induct) simp_all

lemma warning_only:
  assumes "w = [] \<or> (\<exists>s. w = [Stdout s])"
  shows "cf_calls w = []" and "entries_written w = []" and "history_appended w = []"
  using assms by auto

lemma check_metadata_cases:
  obtains (passed) "check_metadata args context studyArea grassMetadata metadata = Inr ()"
  | (missing) sec k what where
      "(sec, k, what) \<in> set (required_keys args)"
      "section_entries studyArea grassMetadata metadata sec k = None"
      "check_metadata args context studyArea grassMetadata metadata
         = Inl (SystemExit (does_not_contain context what))"
proof (cases "find (is_missing studyArea grassMetadata metadata) (required_keys args)")
  case None
  then have "check_metadata args context studyArea grassMetadata metadata = Inr ()"
    unfolding check_metadata_find by (simp only: option.case)
  then show ?thesis by (rule passed)
next
  case (Some y)
  obtain sec k what where y: "y = (sec, k, what)"
    by (cases y)
  from find_Some_in_set [OF Some]
  have "(sec, k, what) \<in> set (required_keys args)"
    and "section_entries studyArea grassMetadata metadata sec k = None"
    unfolding y by (simp_all only: is_missing.simps)
  moreover have "check_metadata args context studyArea grassMetadata metadata
         = Inl (SystemExit (does_not_contain context what))"
    unfolding check_metadata_find Some y by (simp only: option.case prod.case)
  ultimately show ?thesis by (rule missing)
qed

lemma CreateFlowtable_observed [case_names aborted invoked]:
  fixes env :: "('f, 'l) env"
  obtains (aborted) e where
      "snd (CreateFlowtable env args cmdline context studyArea grassMetadata metadata) = Inl e"
      "cf_calls (fst (CreateFlowtable env args cmdline context studyArea grassMetadata metadata))
         = []"
      "entries_written
         (fst (CreateFlowtable env args cmdline context studyArea grassMetadata metadata)) = []"
      "history_appended
         (fst (CreateFlowtable env args cmdline context studyArea grassMetadata metadata)) = []"
  | (invoked) w demResX paths grassLib cf_bin template base dem_rast slope_rast streams_rast
      zero_rast call where
      "check_metadata args context studyArea grassMetadata metadata = Inr ()"
      "check_resolution env args studyArea = (w, Inr demResX)"
      "setup_libraries env args context metadata = ([], Inr (paths, grassLib))"
      "metadata ''cf_bin'' = Some cf_bin"
      "metadata ''template'' = Some template"
      "metadata ''worldfile'' = Some base"
      "grassMetadata ''dem_rast'' = Some dem_rast"
      "grassMetadata ''slope_rast'' = Some slope_rast"
      "grassMetadata ''streams_rast'' = Some streams_rast"
      "grassMetadata ''zero_rast'' = Some zero_rast"
      "call =
       \<lparr>cf_prog = os_path_join env (context_projectDir context) cf_bin,
        cf_out = os_path_join env (RHESSYS_FLOW paths) base,
        cf_template = os_path_join env (RHESSYS_TEMPLATES paths) template,
        cf_dem = dem_rast, cf_slope = slope_rast, cf_stream = streams_rast,
        cf_road = (if routeRoads args then grassMetadata ''roads_rast'' else Some zero_rast),
        cf_roof = (if routeRoofs args then grassMetadata ''roof_connectivity_rast'' else None),
        cf_impervious = (if routeRoofs args then grassMetadata ''impervious_rast'' else None),
        cf_cellsize = demResX\<rparr>"
      "cf_calls (fst (CreateFlowtable env args cmdline context studyArea grassMetadata metadata))
         = [(call, read_command env grassLib call)]"
      "entries_written
         (fst (CreateFlowtable env args cmdline context studyArea grassMetadata metadata)) =
         (case read_command env grassLib call of
            Inr (Some out) \<Rightarrow>
              entries_written (fst (write_postconditions env args cmdline context base))
          | _ \<Rightarrow> [])"
      "history_appended
         (fst (CreateFlowtable env args cmdline context studyArea grassMetadata metadata)) =
         (case read_command env grassLib call of
            Inr (Some out) \<Rightarrow>
              history_appended (fst (write_postconditions env args cmdline context base))
          | _ \<Rightarrow> [])"
      "snd (CreateFlowtable env args cmdline context studyArea grassMetadata metadata) =
         (case read_command env grassLib call of
            Inl e \<Rightarrow> Inl e
          | Inr None \<Rightarrow> Inl (SystemExit ''createflowpaths failed, returning None'')
          | Inr (Some out) \<Rightarrow> snd (write_postconditions env args cmdline context base))"
proof (cases env args cmdline "context" studyArea grassMetadata metadata
    rule: CreateFlowtable_cases)
  case (aborted w e)
  show ?thesis
    using warning_only [OF aborted(2)] by (intro that(1) [of e]) (simp_all add: aborted(1))
next
  case (invoked w demResX paths grassLib cf_bin template base dem_rast slope_rast
      streams_rast zero_rast)
  define call where "call =
       \<lparr>cf_prog = os_path_join env (context_projectDir context) cf_bin,
        cf_out = os_path_join env (RHESSYS_FLOW paths) base,
        cf_template = os_path_join env (RHESSYS_TEMPLATES paths) template,
        cf_dem = dem_rast, cf_slope = slope_rast, cf_stream = streams_rast,
        cf_road = (if routeRoads args then grassMetadata ''roads_rast'' else Some zero_rast),
        cf_roof = (if routeRoofs args then grassMetadata ''roof_connectivity_rast'' else None),
        cf_impervious = (if routeRoofs args then grassMetadata ''impervious_rast'' else None),
        cf_cellsize = demResX\<rparr>"
  note run = CreateFlowtable_invokes [OF invoked(1-10) call_def, of cmdline]
  note w = warning_only [OF invoked(11)]
  show ?thesis
  proof (rule that(2) [OF invoked(1-10) call_def])
    show "cf_calls (fst (CreateFlowtable env args cmdline context studyArea grassMetadata
            metadata)) = [(call, read_command env grassLib call)]"
      unfolding run
      by (simp add: cf_calls_append w write_postconditions_calls
          split: sum.splits option.splits)
    show "entries_written
         (fst (CreateFlowtable env args cmdline context studyArea grassMetadata metadata)) =
         (case read_command env grassLib call of
            Inr (Some out) \<Rightarrow>
              entries_written (fst (write_postconditions env args cmdline context base))
          | _ \<Rightarrow> [])"
      unfolding run by (simp add: entries_written_append w split: sum.splits option.splits)
    show "history_appended
         (fst (CreateFlowtable env args cmdline context studyArea grassMetadata metadata)) =
         (case read_command env grassLib call of
            Inr (Some out) \<Rightarrow>
              history_appended (fst (write_postconditions env args cmdline context base))
          | _ \<Rightarrow> [])"
      unfolding run by (simp add: history_appended_append w split: sum.splits option.splits)
    show "snd (CreateFlowtable env args cmdline context studyArea grassMetadata metadata) =
         (case read_command env grassLib call of
            Inl e \<Rightarrow> Inl e
          | Inr None \<Rightarrow> Inl (SystemExit ''createflowpaths failed, returning None'')
          | Inr (Some out) \<Rightarrow> snd (write_postconditions env args cmdline context base))"
      unfolding run by simp
  qed
qed

text \<open>The same, seen from a run whose resolution check has passed.\<close>

lemma CreateFlowtable_after_resolution [consumes 2, case_names setup_failed invoked]:
  fixes env :: "('f, 'l) env"
  assumes chk: "check_metadata args context studyArea grassMetadata metadata = Inr ()"
    and res: "check_resolution env args studyArea = (w, Inr demResX)"
  obtains (setup_failed) e where
      "setup_libraries env args context metadata = ([], Inl e)"
      "CreateFlowtable env args cmdline context studyArea grassMetadata metadata = (w, Inl e)"
  | (invoked) paths grassLib cf_bin template base call rest where
      "setup_libraries env args context metadata = ([], Inr (paths, grassLib))"
      "metadata ''cf_bin'' = Some cf_bin"
      "metadata ''template'' = Some template"
      "metadata ''worldfile'' = Some base"
      "cf_prog call = os_path_join env (context_projectDir context) cf_bin"
      "cf_out call = os_path_join env (RHESSYS_FLOW paths) base"
      "cf_template call = os_path_join env (RHESSYS_TEMPLATES paths) template"
      "cf_cellsize call = demResX"
      "fst (CreateFlowtable env args cmdline context studyArea grassMetadata metadata)
         = w @ rest"
      "cf_calls rest = [(call, read_command env grassLib call)]"
proof -
  from chk [unfolded check_metadata_Inr_iff]
  obtain rhessys_dir grass_dbase grass_location grass_mapset cf_bin template base
      dem_rast slope_rast streams_rast zero_rast where
      keys: "metadata ''rhessys_dir'' = Some rhessys_dir"
      "metadata ''grass_dbase'' = Some grass_dbase"
      "metadata ''grass_location'' = Some grass_location"
      "metadata ''grass_mapset'' = Some grass_mapset"
      "metadata ''cf_bin'' = Some cf_bin"
      "metadata ''template'' = Some template"
      "metadata ''worldfile'' = Some base"
      "grassMetadata ''dem_rast'' = Some dem_rast"
      "grassMetadata ''slope_rast'' = Some slope_rast"
      "grassMetadata ''streams_rast'' = Some streams_rast"
      "grassMetadata ''zero_rast'' = Some zero_rast"
    by blast
  obtain v s where libs0: "setup_libraries env args context metadata = (v, s)"
    by (cases "setup_libraries env args context metadata")
  have "fst (setup_libraries env args context metadata) = []"
    by (rule setup_libraries_trace [OF keys(1-4)])
  with libs0 have libs: "setup_libraries env args context metadata = ([], s)"
    by simp
  show ?thesis
  proof (cases s)
    case (Inl e)
    from CreateFlowtable_setup_failed [OF chk res libs [unfolded Inl]] libs [unfolded Inl]
    show ?thesis using setup_failed by blast
  next
    case (Inr pl)
    obtain paths grassLib where pl: "pl = (paths, grassLib)"
      by (cases pl)
    define call where "call =
       \<lparr>cf_prog = os_path_join env (context_projectDir context) cf_bin,
        cf_out = os_path_join env (RHESSYS_FLOW paths) base,
        cf_template = os_path_join env (RHESSYS_TEMPLATES paths) template,
        cf_dem = dem_rast, cf_slope = slope_rast, cf_stream = streams_rast,
        cf_road = (if routeRoads args then grassMetadata ''roads_rast'' else Some zero_rast),
        cf_roof = (if routeRoofs args then grassMetadata ''roof_connectivity_rast'' else None),
        cf_impervious = (if routeRoofs args then grassMetadata ''impervious_rast'' else None),
        cf_cellsize = demResX\<rparr>"
    note libs' = libs [unfolded Inr pl]
    note run = CreateFlowtable_invokes [OF chk res libs' keys(5-11) call_def, of cmdline]
    define rest where "rest =
        [Stdout (os_path_join env (RHESSYS_TEMPLATES paths) template @ [CHR 0x0A]),
         Stdout (os_path_join env (RHESSYS_FLOW paths) base @ [CHR 0x0A]),
         ReadCommand call (read_command env grassLib call)]
        @ (case read_command env grassLib call of
             Inr (Some out) \<Rightarrow> fst (write_postconditions env args cmdline context base)
           | _ \<Rightarrow> [])"
    have "fst (CreateFlowtable env args cmdline context studyArea grassMetadata metadata)
         = w @ rest"
      unfolding run rest_def by simp
    moreover have "cf_calls rest = [(call, read_command env grassLib call)]"
      unfolding rest_def
      by (simp add: cf_calls_append write_postconditions_calls
          split: sum.splits option.splits)
    moreover have "cf_prog call = os_path_join env (context_projectDir context) cf_bin"
      "cf_out call = os_path_join env (RHESSYS_FLOW paths) base"
      "cf_template call = os_path_join env (RHESSYS_TEMPLATES paths) template"
      "cf_cellsize call = demResX"
      by (simp_all add: call_def)
    ultimately show ?thesis
      using invoked [OF libs' keys(5-7)] by blast
  qed
qed

subsection \<open>The concrete project\<close>

lemma find_first:
  "\<forall>x \<in> set pre. \<not> P x \<Longrightarrow> P y \<Longrightarrow> find P (pre @ y # post) = Some y"
  by (induction pre) simp_all

lemmas project0_defs = studyArea0_def grassMetadata0_def metadata0_def env0_def args0_def
  context0_def py_float0_def format_f0_def join0_def RHESSysPaths0_def

lemma check_metadata0:
  "check_metadata (args0 roads roofs f) context0 (studyArea0 y) grassMetadata0 metadata0 = Inr ()"
  unfolding check_metadata_Inr_iff
  by (simp add: studyArea0_def grassMetadata0_def metadata0_def)

lemma check_resolution0:
  "check_resolution (env0 cf_result) (args0 roads roofs f) (studyArea0 ''10.0'')
     = ([], Inr ''10.0'')"
  by (simp add: check_resolution_eq [of _ "''10.0''" "''10.0''"] project0_defs)

lemma check_resolution0_mismatch:
  "check_resolution (env0 cf_result) (args0 roads roofs f) (studyArea0 ''10.5'')
     = ([Stdout ''DEM x resolution (10.000000) does not match y resolution (10.500000)''],
        if f then Inr ''10.0''
        else Inl (SystemExit ''Exiting.  Use --force option to override''))"
  by (simp add: check_resolution_eq [of _ "''10.0''" "''10.5''"] project0_defs
      mismatch_warning_def)

lemma setup_libraries0:
  "setup_libraries (env0 cf_result) (args0 roads roofs f) context0 metadata0
     = ([], Inr (\<lparr>RHESSYS_TEMPLATES = ''/proj/rhessys/templates'',
                   RHESSYS_FLOW = ''/proj/rhessys/flow''\<rparr>,
                 \<lparr>gc_context = context0, gc_dbase = ''/proj/GRASSData'',
                  gc_location = ''default'', gc_mapset = ''PERMANENT''\<rparr>))"
  by (simp add: setup_libraries_eq [of _ "''rhessys''" "''GRASSData''" "''default''"
        "''PERMANENT''"] project0_defs)

lemma CreateFlowtable0:
  assumes "y = ''10.0'' \<or> y = ''10.5'' \<and> f"
  shows "CreateFlowtable (env0 cf_result) (args0 roads roofs f) cmdline0 context0
       (studyArea0 y) grassMetadata0 metadata0 =
     ((if y = ''10.0'' then []
       else [Stdout ''DEM x resolution (10.000000) does not match y resolution (10.500000)''])
      @ [Stdout (''/proj/rhessys/templates/template'' @ [CHR 0x0A]),
       Stdout (''/proj/rhessys/flow/world'' @ [CHR 0x0A]),
       ReadCommand (call0 (args0 roads roofs f)) (Inr cf_result)]
      @ (case cf_result of
           None \<Rightarrow> []
         | Some out \<Rightarrow>
            [WriteRHESSysEntry context0 ''surface_flowtable''
               (if roofs then ''world_surface.flow'' else ''world.flow'') (Inr ()),
             WriteRHESSysEntry context0 ''subsurface_flowtable''
               (if roofs then ''world_subsurface.flow'' else ''world.flow'') (Inr ()),
             AppendProcessingHistoryItem context0 cmdline0 (Inr ())]),
      case cf_result of
        None \<Rightarrow> Inl (SystemExit ''createflowpaths failed, returning None'')
      | Some out \<Rightarrow> Inr ())"
proof -
  have res: "check_resolution (env0 cf_result) (args0 roads roofs f) (studyArea0 y) =
     (if y = ''10.0'' then []
      else [Stdout ''DEM x resolution (10.000000) does not match y resolution (10.500000)''],
      Inr ''10.0'')"
    using assms check_resolution0 check_resolution0_mismatch by auto
  have call: "call0 (args0 roads roofs f) =
       \<lparr>cf_prog = os_path_join (env0 cf_result) (context_projectDir context0) ''rhessys/bin/cf'',
        cf_out = os_path_join (env0 cf_result) (RHESSYS_FLOW \<lparr>RHESSYS_TEMPLATES = ''/proj/rhessys/templates'',
                   RHESSYS_FLOW = ''/proj/rhessys/flow''\<rparr>) ''world'',
        cf_template = os_path_join (env0 cf_result) (RHESSYS_TEMPLATES \<lparr>RHESSYS_TEMPLATES = ''/proj/rhessys/templates'',
                   RHESSYS_FLOW = ''/proj/rhessys/flow''\<rparr>) ''template'',
        cf_dem = ''dem'', cf_slope = ''slope'', cf_stream = ''streams'',
        cf_road = (if routeRoads (args0 roads roofs f) then grassMetadata0 ''roads_rast'' else Some ''zero''),
        cf_roof = (if routeRoofs (args0 roads roofs f) then grassMetadata0 ''roof_connectivity_rast'' else None),
        cf_impervious = (if routeRoofs (args0 roads roofs f) then grassMetadata0 ''impervious_rast'' else None),
        cf_cellsize = ''10.0''\<rparr>"
    by (simp add: call0_def project0_defs)
  have keys: "metadata0 ''cf_bin'' = Some ''rhessys/bin/cf''"
    "metadata0 ''template'' = Some ''template''"
    "metadata0 ''worldfile'' = Some ''world''"
    "grassMetadata0 ''dem_rast'' = Some ''dem''"
    "grassMetadata0 ''slope_rast'' = Some ''slope''"
    "grassMetadata0 ''streams_rast'' = Some ''streams''"
    "grassMetadata0 ''zero_rast'' = Some ''zero''"
    by (simp_all add: metadata0_def grassMetadata0_def)
  have rc: "read_command (env0 cf_result) l c = Inr cf_result" for l c
    by (simp add: env0_def)
  show ?thesis
    unfolding CreateFlowtable_invokes [OF check_metadata0 res setup_libraries0 keys call] rc
    by (cases cf_result)
       (simp_all add: write_postconditions_eq surfaceFlowtable_def subsurfaceFlowtable_def
          project0_defs)
qed

section \<open>The claims\<close>

text \<open>
  C3: if any of the thirteen unconditionally required keys (\<open>dem_res_x\<close>, \<open>dem_res_y\<close> in
  the study-area section; \<open>grass_dbase\<close>, \<open>grass_location\<close>, \<open>grass_mapset\<close>,
  \<open>rhessys_dir\<close>, \<open>cf_bin\<close>, \<open>worldfile\<close>, \<open>template\<close> in the RHESSys section;
  \<open>dem_rast\<close>, \<open>slope_rast\<close>, \<open>streams_rast\<close>, \<open>zero_rast\<close> in the GRASS section) is
  missing, the run stops with no event at all, so before the external tool is invoked. It
  exits with the message made of the project directory and of the words that name one of
  the missing unconditional keys; no two keys are named by the same words.
\<close>

theorem missing_unconditional_key_aborts:
  assumes "(sec, k, what) \<in> set unconditional_keys"
    and "section_entries studyArea grassMetadata metadata sec k = None"
  shows "(\<exists>sec' k' what'. (sec', k', what') \<in> set unconditional_keys \<and>
            section_entries studyArea grassMetadata metadata sec' k' = None \<and>
            CreateFlowtable env args cmdline context studyArea grassMetadata metadata =
              ([], Inl (SystemExit (''Metadata in project directory ''
                  @ context_projectDir context @ '' does not contain '' @ what'))))
         \<and> distinct (map (snd \<circ> snd) unconditional_keys)"
proof
  from check_metadata_unconditional [OF assms, of args "context"]
  obtain sec' k' what' where row: "(sec', k', what') \<in> set unconditional_keys"
    "section_entries studyArea grassMetadata metadata sec' k' = None"
    and chk: "check_metadata args context studyArea grassMetadata metadata
             = Inl (SystemExit (does_not_contain context what'))"
    by blast
  from CreateFlowtable_check_failed [OF chk, of env cmdline] row
  show "\<exists>sec' k' what'. (sec', k', what') \<in> set unconditional_keys \<and>
            section_entries studyArea grassMetadata metadata sec' k' = None \<and>
            CreateFlowtable env args cmdline context studyArea grassMetadata metadata =
              ([], Inl (SystemExit (''Metadata in project directory ''
                  @ context_projectDir context @ '' does not contain '' @ what')))"
    unfolding does_not_contain_def by blast
  show "distinct (map (snd \<circ> snd) unconditional_keys)"
    by (simp add: unconditional_keys_def)
qed

theorem missing_unconditional_key_aborts_witness:
  "(GRASS, ''zero_rast'', ''a GRASS dataset with a zero raster'') \<in> set unconditional_keys \<and>
   section_entries (studyArea0 ''10.0'') (grassMetadata0(''zero_rast'' := None))
     (metadata0(''template'' := None)) GRASS ''zero_rast'' = None \<and>
   (\<exists>sec' k' what'. (sec', k', what') \<in> set unconditional_keys \<and>
      section_entries (studyArea0 ''10.0'') (grassMetadata0(''zero_rast'' := None))
        (metadata0(''template'' := None)) sec' k' = None \<and>
      CreateFlowtable (env0 (Some ''ok'')) (args0 True False False) cmdline0 context0
        (studyArea0 ''10.0'') (grassMetadata0(''zero_rast'' := None))
        (metadata0(''template'' := None)) =
       ([], Inl (SystemExit (''Metadata in project directory '' @ context_projectDir context0
                  @ '' does not contain '' @ what'))))"
proof -
  have h1: "(GRASS, ''zero_rast'', ''a GRASS dataset with a zero raster'')
      \<in> set unconditional_keys"
    by (simp add: unconditional_keys_def)
  have h2: "section_entries (studyArea0 ''10.0'') (grassMetadata0(''zero_rast'' := None))
     (metadata0(''template'' := None)) GRASS ''zero_rast'' = None"
    by simp
  show ?thesis
    by (intro conjI h1 h2 missing_unconditional_key_aborts [OF h1 h2, THEN conjunct1])
qed

text \<open>
  C7: the presence checks run in one fixed order, the thirteen unconditional keys first and
  then the keys required by a flag (\<open>roads_rast\<close>, then \<open>roof_connectivity_rast\<close> and
  \<open>impervious_rast\<close>). Whatever else is missing, the run stops without any event and its
  message names the first key of that order which is missing; the words naming the keys
  are pairwise different, so the message determines the key.
\<close>

theorem first_missing_key_is_reported:
  assumes "unconditional_keys @ conditional_keys args = pre @ (sec, k, what) # post"
    and "\<forall>row \<in> set pre. \<not> is_missing studyArea grassMetadata metadata row"
    and "section_entries studyArea grassMetadata metadata sec k = None"
  shows "CreateFlowtable env args cmdline context studyArea grassMetadata metadata =
           ([], Inl (SystemExit (''Metadata in project directory ''
               @ context_projectDir context @ '' does not contain '' @ what)))
         \<and> map (fst \<circ> snd) (conditional_keys args) =
             (if routeRoads args then [''roads_rast''] else [])
             @ (if routeRoofs args then [''roof_connectivity_rast'', ''impervious_rast'']
                else [])
         \<and> distinct (map (snd \<circ> snd) (unconditional_keys @ conditional_keys args))"
proof (intro conjI)
  let ?P = "is_missing studyArea grassMetadata metadata"
  have "?P (sec, k, what)"
    using assms(3) by (simp only: is_missing.simps)
  from find_first [of pre ?P, OF assms(2) this, of post]
  have "find ?P (required_keys args) = Some (sec, k, what)"
    unfolding required_keys_def assms(1) .
  then have "check_metadata args context studyArea grassMetadata metadata
               = Inl (SystemExit (does_not_contain context what))"
    unfolding check_metadata_find by (simp only: option.case prod.case)
  from CreateFlowtable_check_failed [OF this]
  show "CreateFlowtable env args cmdline context studyArea grassMetadata metadata =
           ([], Inl (SystemExit (''Metadata in project directory ''
               @ context_projectDir context @ '' does not contain '' @ what)))"
    unfolding does_not_contain_def .
  show "map (fst \<circ> snd) (conditional_keys args) =
             (if routeRoads args then [''roads_rast''] else [])
             @ (if routeRoofs args then [''roof_connectivity_rast'', ''impervious_rast'']
                else [])"
    by (simp add: conditional_keys_def)
  show "distinct (map (snd \<circ> snd) (unconditional_keys @ conditional_keys args))"
    by (cases "routeRoads args"; cases "routeRoofs args")
       (simp_all add: unconditional_keys_def conditional_keys_def)
qed

theorem first_missing_key_is_reported_witness:
  "unconditional_keys @ conditional_keys (args0 True True False) =
     take 8 unconditional_keys @ (RHESSys, ''template'', ''a template'')
       # (drop 9 unconditional_keys @ conditional_keys (args0 True True False))
   \<and> find (is_missing (studyArea0 ''10.0'')
            (grassMetadata0(''zero_rast'' := None, ''roads_rast'' := None))
            (metadata0(''template'' := None))) (take 8 unconditional_keys) = None
   \<and> section_entries (studyArea0 ''10.0'')
        (grassMetadata0(''zero_rast'' := None, ''roads_rast'' := None))
        (metadata0(''template'' := None)) RHESSys ''template'' = None
   \<and> CreateFlowtable (env0 (Some ''ok'')) (args0 True True False) cmdline0 context0
        (studyArea0 ''10.0'') (grassMetadata0(''zero_rast'' := None, ''roads_rast'' := None))
        (metadata0(''template'' := None)) =
       ([], Inl (SystemExit ''Metadata in project directory /proj does not contain a template''))"
proof -
  have h1: "unconditional_keys @ conditional_keys (args0 True True False) =
     take 8 unconditional_keys @ (RHESSys, ''template'', ''a template'')
       # (drop 9 unconditional_keys @ conditional_keys (args0 True True False))"
    by (simp add: unconditional_keys_def)
  have h2: "\<forall>row \<in> set (take 8 unconditional_keys).
        \<not> is_missing (studyArea0 ''10.0'')
            (grassMetadata0(''zero_rast'' := None, ''roads_rast'' := None))
            (metadata0(''template'' := None)) row"
    by (simp add: unconditional_keys_def studyArea0_def metadata0_def)
  have h3: "section_entries (studyArea0 ''10.0'')
        (grassMetadata0(''zero_rast'' := None, ''roads_rast'' := None))
        (metadata0(''template'' := None)) RHESSys ''template'' = None"
    by simp
  from first_missing_key_is_reported [OF h1 h2 h3, THEN conjunct1,
      of "env0 (Some ''ok'')" cmdline0 context0]
  have "CreateFlowtable (env0 (Some ''ok'')) (args0 True True False) cmdline0 context0
        (studyArea0 ''10.0'') (grassMetadata0(''zero_rast'' := None, ''roads_rast'' := None))
        (metadata0(''template'' := None)) =
       ([], Inl (SystemExit ''Metadata in project directory /proj does not contain a template''))"
    by (simp add: context0_def)
  moreover have "find (is_missing (studyArea0 ''10.0'')
            (grassMetadata0(''zero_rast'' := None, ''roads_rast'' := None))
            (metadata0(''template'' := None))) (take 8 unconditional_keys) = None"
    using h2 by (simp only: find_None_iff) blast
  ultimately show ?thesis
    using h1 h3 by (intro conjI)
qed

text \<open>
  C8: a store without \<open>zero_rast\<close> in the GRASS section makes the run stop with no event,
  whatever the flags are, hence also when the roads flag is set. With the roads flag set the
  zero raster is not an input of the run: replacing the value of \<open>zero_rast\<close> by any other
  value leaves the whole run, events and result, unchanged.
\<close>

theorem zero_rast_required_even_if_unused:
  "(grassMetadata ''zero_rast'' = None \<longrightarrow>
      (\<exists>what. CreateFlowtable env args cmdline context studyArea grassMetadata metadata =
         ([], Inl (SystemExit (''Metadata in project directory ''
               @ context_projectDir context @ '' does not contain '' @ what)))))
   \<and> (routeRoads args \<longrightarrow> grassMetadata ''zero_rast'' \<noteq> None \<longrightarrow>
        CreateFlowtable env args cmdline context studyArea
          (grassMetadata(''zero_rast'' \<mapsto> z)) metadata =
        CreateFlowtable env args cmdline context studyArea grassMetadata metadata)"
proof (intro conjI impI)
  assume "grassMetadata ''zero_rast'' = None"
  then have miss: "section_entries studyArea grassMetadata metadata GRASS ''zero_rast'' = None"
    by simp
  have row: "(GRASS, ''zero_rast'', ''a GRASS dataset with a zero raster'')
      \<in> set unconditional_keys"
    by (simp add: unconditional_keys_def)
  from check_metadata_unconditional [OF row miss, of args "context"]
  obtain what where "check_metadata args context studyArea grassMetadata metadata
             = Inl (SystemExit (does_not_contain context what))"
    by blast
  from CreateFlowtable_check_failed [OF this, of env cmdline]
  show "\<exists>what. CreateFlowtable env args cmdline context studyArea grassMetadata metadata =
         ([], Inl (SystemExit (''Metadata in project directory ''
               @ context_projectDir context @ '' does not contain '' @ what)))"
    unfolding does_not_contain_def by blast
next
  assume roads: "routeRoads args" and zero: "grassMetadata ''zero_rast'' \<noteq> None"
  have "is_missing studyArea (grassMetadata(''zero_rast'' \<mapsto> z)) metadata row =
        is_missing studyArea grassMetadata metadata row" for row
    using zero by (cases row; cases "fst row") auto
  then have "is_missing studyArea (grassMetadata(''zero_rast'' \<mapsto> z)) metadata =
        is_missing studyArea grassMetadata metadata"
    by (rule ext)
  then have chk: "check_metadata args context studyArea (grassMetadata(''zero_rast'' \<mapsto> z))
         metadata = check_metadata args context studyArea grassMetadata metadata"
    unfolding check_metadata_find by (rule arg_cong)
  show "CreateFlowtable env args cmdline context studyArea
          (grassMetadata(''zero_rast'' \<mapsto> z)) metadata =
        CreateFlowtable env args cmdline context studyArea grassMetadata metadata"
    unfolding CreateFlowtable_def chk
    by (simp add: roads getitem_def)
qed

theorem zero_rast_required_even_if_unused_witness:
  "(grassMetadata0(''zero_rast'' := None)) ''zero_rast'' = None
   \<and> (\<exists>what. CreateFlowtable (env0 (Some ''ok'')) (args0 True False False) cmdline0 context0
          (studyArea0 ''10.0'') (grassMetadata0(''zero_rast'' := None)) metadata0 =
         ([], Inl (SystemExit (''Metadata in project directory ''
               @ context_projectDir context0 @ '' does not contain '' @ what))))
   \<and> routeRoads (args0 True False False) \<and> grassMetadata0 ''zero_rast'' \<noteq> None
   \<and> CreateFlowtable (env0 (Some ''ok'')) (args0 True False False) cmdline0 context0
          (studyArea0 ''10.0'') (grassMetadata0(''zero_rast'' \<mapsto> ''other'')) metadata0 =
       CreateFlowtable (env0 (Some ''ok'')) (args0 True False False) cmdline0 context0
          (studyArea0 ''10.0'') grassMetadata0 metadata0"
proof -
  have h1: "(grassMetadata0(''zero_rast'' := None)) ''zero_rast'' = None"
    by simp
  have h2: "routeRoads (args0 True False False)"
    by (simp add: args0_def)
  have h3: "grassMetadata0 ''zero_rast'' \<noteq> None"
    by (simp add: grassMetadata0_def)
  note a = zero_rast_required_even_if_unused
      [where grassMetadata = "grassMetadata0(''zero_rast'' := None)",
        THEN conjunct1, rule_format, OF h1]
  note b = zero_rast_required_even_if_unused
      [where grassMetadata = grassMetadata0, THEN conjunct2, rule_format, OF h2 h3]
  show ?thesis
    by (intro conjI h1 h2 h3 a b)
qed

text \<open>
  C5: with the roads flag set and \<open>roads_rast\<close> absent from the GRASS section, the run stops
  with no event, so before the external tool is invoked; when no unconditional key is
  missing either, its message is the one of the roads raster. With the flag unset, every
  invocation of the tool gets the value of \<open>zero_rast\<close> as its road argument, and the run
  is the same whether \<open>roads_rast\<close> is present, absent or different.
\<close>

theorem roads_flag_selects_road_argument:
  "(routeRoads args \<longrightarrow> grassMetadata ''roads_rast'' = None \<longrightarrow>
      (\<exists>what. CreateFlowtable env args cmdline context studyArea grassMetadata metadata =
         ([], Inl (SystemExit (''Metadata in project directory ''
               @ context_projectDir context @ '' does not contain '' @ what)))))
   \<and> (routeRoads args \<longrightarrow> grassMetadata ''roads_rast'' = None \<longrightarrow>
        (\<forall>row \<in> set unconditional_keys.
            \<not> is_missing studyArea grassMetadata metadata row) \<longrightarrow>
        CreateFlowtable env args cmdline context studyArea grassMetadata metadata =
         ([], Inl (SystemExit (''Metadata in project directory ''
               @ context_projectDir context
               @ '' does not contain a GRASS dataset with a roads raster''))))
   \<and> (\<not> routeRoads args \<longrightarrow>
        (\<forall>(c, r) \<in> set (cf_calls (fst (CreateFlowtable env args cmdline context studyArea
                                        grassMetadata metadata))).
            cf_road c = grassMetadata ''zero_rast'' \<and> grassMetadata ''zero_rast'' \<noteq> None))
   \<and> (\<not> routeRoads args \<longrightarrow>
        CreateFlowtable env args cmdline context studyArea
          (grassMetadata(''roads_rast'' := v)) metadata =
        CreateFlowtable env args cmdline context studyArea grassMetadata metadata)"
proof (intro conjI impI)
  assume roads: "routeRoads args" and none: "grassMetadata ''roads_rast'' = None"
  show "\<exists>what. CreateFlowtable env args cmdline context studyArea grassMetadata metadata =
         ([], Inl (SystemExit (''Metadata in project directory ''
               @ context_projectDir context @ '' does not contain '' @ what)))"
  proof (cases args "context" studyArea grassMetadata metadata rule: check_metadata_cases)
    case passed
    with roads none show ?thesis
      unfolding check_metadata_Inr_iff by blast
  next
    case (missing sec k what)
    from CreateFlowtable_check_failed [OF missing(3), of env cmdline]
    show ?thesis unfolding does_not_contain_def by blast
  qed
next
  assume roads: "routeRoads args" and none: "grassMetadata ''roads_rast'' = None"
    and present: "\<forall>row \<in> set unconditional_keys.
            \<not> is_missing studyArea grassMetadata metadata row"
  let ?P = "is_missing studyArea grassMetadata metadata"
  let ?row = "(GRASS, ''roads_rast'', ''a GRASS dataset with a roads raster'')"
  have "?P ?row"
    using none by simp
  from find_first [of unconditional_keys ?P, OF present this]
  have "find ?P (required_keys args) = Some ?row"
    unfolding required_keys_def conditional_keys_def using roads by simp
  then have "check_metadata args context studyArea grassMetadata metadata
      = Inl (SystemExit (does_not_contain context ''a GRASS dataset with a roads raster''))"
    unfolding check_metadata_find by (simp only: option.case prod.case)
  from CreateFlowtable_check_failed [OF this, of env cmdline]
  show "CreateFlowtable env args cmdline context studyArea grassMetadata metadata =
         ([], Inl (SystemExit (''Metadata in project directory ''
               @ context_projectDir context
               @ '' does not contain a GRASS dataset with a roads raster'')))"
    unfolding does_not_contain_def by simp
next
  assume noroads: "\<not> routeRoads args"
  show "\<forall>(c, r) \<in> set (cf_calls (fst (CreateFlowtable env args cmdline context studyArea
                                        grassMetadata metadata))).
            cf_road c = grassMetadata ''zero_rast'' \<and> grassMetadata ''zero_rast'' \<noteq> None"
  proof (cases env args cmdline "context" studyArea grassMetadata metadata
      rule: CreateFlowtable_observed)
    case (aborted e)
    then show ?thesis by simp
  next
    case (invoked w demResX paths grassLib cf_bin template base dem_rast slope_rast
        streams_rast zero_rast call)
    show ?thesis
      unfolding invoked(12) using noroads invoked(10) by (simp add: invoked(11))
  qed
next
  assume noroads: "\<not> routeRoads args"
  have "is_missing studyArea (grassMetadata(''roads_rast'' := v)) metadata row =
        is_missing studyArea grassMetadata metadata row"
    if "row \<in> set (required_keys args)" for row
    using that noroads
    by (cases "routeRoofs args")
       (auto simp: required_keys_def unconditional_keys_def conditional_keys_def)
  then have "find (is_missing studyArea (grassMetadata(''roads_rast'' := v)) metadata)
               (required_keys args) =
             find (is_missing studyArea grassMetadata metadata) (required_keys args)"
    by (intro find_cong refl) 
  then have chk: "check_metadata args context studyArea (grassMetadata(''roads_rast'' := v))
         metadata = check_metadata args context studyArea grassMetadata metadata"
    unfolding check_metadata_find by (rule arg_cong)
  show "CreateFlowtable env args cmdline context studyArea
          (grassMetadata(''roads_rast'' := v)) metadata =
        CreateFlowtable env args cmdline context studyArea grassMetadata metadata"
    unfolding CreateFlowtable_def chk
    by (simp add: noroads getitem_def)
qed


theorem roads_flag_selects_road_argument_witness:
  "routeRoads (args0 True False False) \<and> (grassMetadata0(''roads_rast'' := None)) ''roads_rast'' = None
   \<and> find (is_missing (studyArea0 ''10.0'') (grassMetadata0(''roads_rast'' := None)) metadata0)
        unconditional_keys = None
   \<and> CreateFlowtable (env0 (Some ''ok'')) (args0 True False False) cmdline0 context0
        (studyArea0 ''10.0'') (grassMetadata0(''roads_rast'' := None)) metadata0 =
       ([], Inl (SystemExit (''Metadata in project directory /proj''
               @ '' does not contain a GRASS dataset with a roads raster'')))
   \<and> \<not> routeRoads (args0 False False False)
   \<and> grassMetadata0 ''roads_rast'' = Some ''roads''
   \<and> cf_calls (fst (CreateFlowtable (env0 (Some ''ok'')) (args0 False False False) cmdline0
          context0 (studyArea0 ''10.0'') grassMetadata0 metadata0))
        = [(call0 (args0 False False False), Inr (Some ''ok''))]
   \<and> map (cf_road \<circ> fst) (cf_calls (fst (CreateFlowtable (env0 (Some ''ok''))
          (args0 False False False) cmdline0 context0 (studyArea0 ''10.0'') grassMetadata0
          metadata0))) = [Some ''zero'']
   \<and> CreateFlowtable (env0 (Some ''ok'')) (args0 False False False) cmdline0 context0
        (studyArea0 ''10.0'') (grassMetadata0(''roads_rast'' := None)) metadata0 =
       CreateFlowtable (env0 (Some ''ok'')) (args0 False False False) cmdline0 context0
        (studyArea0 ''10.0'') grassMetadata0 metadata0"
proof -
  have h1: "routeRoads (args0 True False False)"
    and h2: "(grassMetadata0(''roads_rast'' := None)) ''roads_rast'' = None"
    and h4: "\<not> routeRoads (args0 False False False)"
    and h5: "grassMetadata0 ''roads_rast'' = Some ''roads''"
    by (simp_all add: args0_def grassMetadata0_def)
  have h3: "\<forall>row \<in> set unconditional_keys.
         \<not> is_missing (studyArea0 ''10.0'') (grassMetadata0(''roads_rast'' := None)) metadata0 row"
    by (simp add: unconditional_keys_def studyArea0_def grassMetadata0_def metadata0_def)
  have zero: "grassMetadata0 ''zero_rast'' = Some ''zero''"
    by (simp add: grassMetadata0_def)
  note a = roads_flag_selects_road_argument
      [where grassMetadata = "grassMetadata0(''roads_rast'' := None)"
         and args = "args0 True False False" and env = "env0 (Some ''ok'')"
         and studyArea = "studyArea0 ''10.0''" and metadata = metadata0 and cmdline = cmdline0,
        THEN conjunct2, THEN conjunct1, THEN mp, OF h1, THEN mp, OF h2, THEN mp, OF h3,
        of context0]
  note b = roads_flag_selects_road_argument
      [where grassMetadata = grassMetadata0 and args = "args0 False False False"
         and env = "env0 (Some ''ok'')" and studyArea = "studyArea0 ''10.0''"
         and metadata = metadata0 and cmdline = cmdline0,
        THEN conjunct2, THEN conjunct2, THEN conjunct1, THEN mp, OF h4, of context0]
  note c = roads_flag_selects_road_argument
      [where grassMetadata = grassMetadata0 and args = "args0 False False False"
         and v = None,
        THEN conjunct2, THEN conjunct2, THEN conjunct2, THEN mp, OF h4]
  have calls: "cf_calls (fst (CreateFlowtable (env0 (Some ''ok'')) (args0 False False False)
          cmdline0 context0 (studyArea0 ''10.0'') grassMetadata0 metadata0))
        = [(call0 (args0 False False False), Inr (Some ''ok''))]"
    by (simp add: CreateFlowtable0)
  have a': "CreateFlowtable (env0 (Some ''ok'')) (args0 True False False) cmdline0 context0
        (studyArea0 ''10.0'') (grassMetadata0(''roads_rast'' := None)) metadata0 =
       ([], Inl (SystemExit (''Metadata in project directory /proj''
               @ '' does not contain a GRASS dataset with a roads raster'')))"
    using a by (simp add: context0_def)
  have b': "map (cf_road \<circ> fst) (cf_calls (fst (CreateFlowtable (env0 (Some ''ok''))
          (args0 False False False) cmdline0 context0 (studyArea0 ''10.0'') grassMetadata0
          metadata0))) = [Some ''zero'']"
    using b unfolding calls by (simp add: zero)
  have h3': "find (is_missing (studyArea0 ''10.0'') (grassMetadata0(''roads_rast'' := None))
        metadata0) unconditional_keys = None"
    using h3 by (simp only: find_None_iff) blast
  show ?thesis
    by (intro conjI h1 h2 h3' h4 h5 a' b' c calls)
qed

text \<open>
  C9: with the roofs flag unset, every invocation of the external tool gets Python's
  \<^verbatim>\<open>None\<close> as its roof argument and as its impervious argument, whatever the GRASS section
  holds under \<open>roof_connectivity_rast\<close> and \<open>impervious_rast\<close>.
\<close>

theorem no_roof_arguments_without_flag:
  assumes "\<not> routeRoofs args"
  shows "\<forall>(c, r) \<in> set (cf_calls (fst (CreateFlowtable env args cmdline context studyArea
                                        grassMetadata metadata))).
            cf_roof c = None \<and> cf_impervious c = None"
proof (cases env args cmdline "context" studyArea grassMetadata metadata
      rule: CreateFlowtable_observed)
  case (aborted e)
  then show ?thesis by simp
next
  case (invoked w demResX paths grassLib cf_bin template base dem_rast slope_rast
      streams_rast zero_rast call)
  show ?thesis
    unfolding invoked(12) using assms by (simp add: invoked(11))
qed

theorem no_roof_arguments_without_flag_witness:
  "\<not> routeRoofs (args0 True False False)
   \<and> grassMetadata0 ''roof_connectivity_rast'' = Some ''roofs''
   \<and> grassMetadata0 ''impervious_rast'' = Some ''impervious''
   \<and> cf_calls (fst (CreateFlowtable (env0 (Some ''ok'')) (args0 True False False) cmdline0
          context0 (studyArea0 ''10.0'') grassMetadata0 metadata0))
        = [(call0 (args0 True False False), Inr (Some ''ok''))]
   \<and> map (cf_roof \<circ> fst) (cf_calls (fst (CreateFlowtable (env0 (Some ''ok''))
          (args0 True False False) cmdline0 context0 (studyArea0 ''10.0'') grassMetadata0
          metadata0))) = [None]
   \<and> map (cf_impervious \<circ> fst) (cf_calls (fst (CreateFlowtable (env0 (Some ''ok''))
          (args0 True False False) cmdline0 context0 (studyArea0 ''10.0'') grassMetadata0
          metadata0))) = [None]"
proof -
  have h: "\<not> routeRoofs (args0 True False False)"
    by (simp add: args0_def)
  have present: "grassMetadata0 ''roof_connectivity_rast'' = Some ''roofs''"
    "grassMetadata0 ''impervious_rast'' = Some ''impervious''"
    by (simp_all add: grassMetadata0_def)
  have calls: "cf_calls (fst (CreateFlowtable (env0 (Some ''ok'')) (args0 True False False)
          cmdline0 context0 (studyArea0 ''10.0'') grassMetadata0 metadata0))
        = [(call0 (args0 True False False), Inr (Some ''ok''))]"
    by (simp add: CreateFlowtable0)
  note a = no_roof_arguments_without_flag [OF h, where env = "env0 (Some ''ok'')"
      and cmdline = cmdline0 and studyArea = "studyArea0 ''10.0''"
      and grassMetadata = grassMetadata0 and metadata = metadata0, of context0]
  have roof: "map (cf_roof \<circ> fst) (cf_calls (fst (CreateFlowtable (env0 (Some ''ok''))
          (args0 True False False) cmdline0 context0 (studyArea0 ''10.0'') grassMetadata0
          metadata0))) = [None]"
    and imp: "map (cf_impervious \<circ> fst) (cf_calls (fst (CreateFlowtable (env0 (Some ''ok''))
          (args0 True False False) cmdline0 context0 (studyArea0 ''10.0'') grassMetadata0
          metadata0))) = [None]"
    using a unfolding calls by simp_all
  show ?thesis
    by (intro conjI h present calls roof imp)
qed

text \<open>
  C1, as the code has it: in every run, an entry \<open>surface_flowtable\<close> or
  \<open>subsurface_flowtable\<close> is written only if the invocation of the external tool returned a
  value other than \<^verbatim>\<open>None\<close>. When it returned \<^verbatim>\<open>None\<close> the run exits with the message
  \<^verbatim>\<open>createflowpaths failed, returning None\<close>, writes no entry and appends nothing to the
  history. When it returned another value and the three calls to the metadata store return,
  the run ends normally, has written exactly the two entries with the computed names, and
  has appended exactly the command line to the history.
\<close>

theorem postconditions_written_when_store_returns:
  assumes "CreateFlowtable env args cmdline context studyArea grassMetadata metadata = (tr, res)"
  shows "(''surface_flowtable'' \<in> fst ` set (entries_written tr) \<longrightarrow>
            (\<exists>c out. (c, Inr (Some out)) \<in> set (cf_calls tr)))
       \<and> (''subsurface_flowtable'' \<in> fst ` set (entries_written tr) \<longrightarrow>
            (\<exists>c out. (c, Inr (Some out)) \<in> set (cf_calls tr)))
       \<and> (\<forall>c. (c, Inr None) \<in> set (cf_calls tr) \<longrightarrow>
             res = Inl (SystemExit (''createflowpaths failed, returning '' @ ''None''))
             \<and> entries_written tr = [] \<and> history_appended tr = [])
       \<and> (\<forall>c out. (c, Inr (Some out)) \<in> set (cf_calls tr) \<longrightarrow>
             (\<exists>base. metadata ''worldfile'' = Some base \<and>
                (writeRHESSysEntry env context ''surface_flowtable''
                     (surfaceFlowtable args base) = Inr () \<longrightarrow>
                 writeRHESSysEntry env context ''subsurface_flowtable''
                     (subsurfaceFlowtable args base) = Inr () \<longrightarrow>
                 appendProcessingHistoryItem env context cmdline = Inr () \<longrightarrow>
                 res = Inr ()
                 \<and> entries_written tr =
                     [(''surface_flowtable'', surfaceFlowtable args base),
                      (''subsurface_flowtable'', subsurfaceFlowtable args base)]
                 \<and> history_appended tr = [cmdline])))"
proof (cases env args cmdline "context" studyArea grassMetadata metadata
      rule: CreateFlowtable_observed)
  case (aborted e)
  then show ?thesis
    unfolding assms by simp
next
  case (invoked w demResX paths grassLib cf_bin template base dem_rast slope_rast
      streams_rast zero_rast call)
  note obs = invoked(12-15) [unfolded assms fst_conv snd_conv]
  show ?thesis
  proof (cases "read_command env grassLib call")
    case (Inl e)
    then show ?thesis
      unfolding obs by simp
  next
    case (Inr v)
    show ?thesis
    proof (cases v)
      case None
      with Inr show ?thesis
        unfolding obs by simp
    next
      case (Some out)
      have "res = Inr ()
            \<and> entries_written tr =
                  [(''surface_flowtable'', surfaceFlowtable args base),
                   (''subsurface_flowtable'', subsurfaceFlowtable args base)]
            \<and> history_appended tr = [cmdline]"
        if "writeRHESSysEntry env context ''surface_flowtable''
                     (surfaceFlowtable args base) = Inr ()"
          and "writeRHESSysEntry env context ''subsurface_flowtable''
                     (subsurfaceFlowtable args base) = Inr ()"
          and "appendProcessingHistoryItem env context cmdline = Inr ()"
        unfolding obs Inr Some write_postconditions_returned [OF that]
        by simp
      with Inr Some invoked(6) show ?thesis
        unfolding obs(1) by simp
    qed
  qed
qed

theorem postconditions_written_when_store_returns_witness:
  "CreateFlowtable (env0 (Some ''ok'')) (args0 False True False) cmdline0 context0
       (studyArea0 ''10.0'') grassMetadata0 metadata0 =
     ([Stdout (''/proj/rhessys/templates/template'' @ [CHR 0x0A]),
       Stdout (''/proj/rhessys/flow/world'' @ [CHR 0x0A]),
       ReadCommand (call0 (args0 False True False)) (Inr (Some ''ok'')),
       WriteRHESSysEntry context0 ''surface_flowtable'' ''world_surface.flow'' (Inr ()),
       WriteRHESSysEntry context0 ''subsurface_flowtable'' ''world_subsurface.flow'' (Inr ()),
       AppendProcessingHistoryItem context0 cmdline0 (Inr ())], Inr ())
   \<and> CreateFlowtable (env0 None) (args0 False True False) cmdline0 context0
       (studyArea0 ''10.0'') grassMetadata0 metadata0 =
     ([Stdout (''/proj/rhessys/templates/template'' @ [CHR 0x0A]),
       Stdout (''/proj/rhessys/flow/world'' @ [CHR 0x0A]),
       ReadCommand (call0 (args0 False True False)) (Inr None)],
      Inl (SystemExit ''createflowpaths failed, returning None''))
   \<and> writeRHESSysEntry (env0 (Some ''ok'')) context0 ''surface_flowtable''
         (surfaceFlowtable (args0 False True False) ''world'') = Inr ()
   \<and> writeRHESSysEntry (env0 (Some ''ok'')) context0 ''subsurface_flowtable''
         (subsurfaceFlowtable (args0 False True False) ''world'') = Inr ()
   \<and> appendProcessingHistoryItem (env0 (Some ''ok'')) context0 cmdline0 = Inr ()
   \<and> (\<exists>base. metadata0 ''worldfile'' = Some base \<and>
         [(''surface_flowtable'', ''world_surface.flow''),
          (''subsurface_flowtable'', ''world_subsurface.flow'')] =
         [(''surface_flowtable'', surfaceFlowtable (args0 False True False) base),
          (''subsurface_flowtable'', subsurfaceFlowtable (args0 False True False) base)])"
proof -
  have ok: "CreateFlowtable (env0 (Some ''ok'')) (args0 False True False) cmdline0 context0
       (studyArea0 ''10.0'') grassMetadata0 metadata0 =
     ([Stdout (''/proj/rhessys/templates/template'' @ [CHR 0x0A]),
       Stdout (''/proj/rhessys/flow/world'' @ [CHR 0x0A]),
       ReadCommand (call0 (args0 False True False)) (Inr (Some ''ok'')),
       WriteRHESSysEntry context0 ''surface_flowtable'' ''world_surface.flow'' (Inr ()),
       WriteRHESSysEntry context0 ''subsurface_flowtable'' ''world_subsurface.flow'' (Inr ()),
       AppendProcessingHistoryItem context0 cmdline0 (Inr ())], Inr ())"
    by (simp add: CreateFlowtable0)
  have failed: "CreateFlowtable (env0 None) (args0 False True False) cmdline0 context0
       (studyArea0 ''10.0'') grassMetadata0 metadata0 =
     ([Stdout (''/proj/rhessys/templates/template'' @ [CHR 0x0A]),
       Stdout (''/proj/rhessys/flow/world'' @ [CHR 0x0A]),
       ReadCommand (call0 (args0 False True False)) (Inr None)],
      Inl (SystemExit ''createflowpaths failed, returning None''))"
    by (simp add: CreateFlowtable0)
  have store: "writeRHESSysEntry (env0 (Some ''ok'')) context0 ''surface_flowtable''
         (surfaceFlowtable (args0 False True False) ''world'') = Inr ()"
    "writeRHESSysEntry (env0 (Some ''ok'')) context0 ''subsurface_flowtable''
         (subsurfaceFlowtable (args0 False True False) ''world'') = Inr ()"
    "appendProcessingHistoryItem (env0 (Some ''ok'')) context0 cmdline0 = Inr ()"
    by (simp_all add: env0_def)
  from postconditions_written_when_store_returns [OF ok] store
  have "\<exists>base. metadata0 ''worldfile'' = Some base \<and>
         [(''surface_flowtable'', ''world_surface.flow''),
          (''subsurface_flowtable'', ''world_subsurface.flow'')] =
         [(''surface_flowtable'', surfaceFlowtable (args0 False True False) base),
          (''subsurface_flowtable'', subsurfaceFlowtable (args0 False True False) base)]"
    by (simp add: metadata0_def)
  moreover from postconditions_written_when_store_returns [OF failed]
  have "Inl (SystemExit ''createflowpaths failed, returning None'')
          = (Inl (SystemExit (''createflowpaths failed, returning '' @ ''None'')) :: error + unit)"
    by simp
  ultimately show ?thesis
    using ok failed store by (intro conjI)
qed

text \<open>
  The equivalence without the condition on the store fails. In the concrete project, let
  the first call to the store never return (it waits for the lock of the metadata file):
  the tool has returned a value, and neither entry is written nor is the history extended.
\<close>

theorem postconditions_iff_tool_succeeded_counterexample:
  "cf_calls (fst (CreateFlowtable env_locked
       (args0 False True False) cmdline0 context0 (studyArea0 ''10.0'') grassMetadata0
       metadata0))
     = [(call0 (args0 False True False), Inr (Some ''ok''))]
   \<and> entries_written (fst (CreateFlowtable env_locked
       (args0 False True False) cmdline0 context0 (studyArea0 ''10.0'') grassMetadata0
       metadata0)) = []
   \<and> history_appended (fst (CreateFlowtable env_locked
       (args0 False True False) cmdline0 context0 (studyArea0 ''10.0'') grassMetadata0
       metadata0)) = []
   \<and> snd (CreateFlowtable env_locked
       (args0 False True False) cmdline0 context0 (studyArea0 ''10.0'') grassMetadata0
       metadata0) = Inl (Blocked ''lock'')"
proof -
  have run: "CreateFlowtable env_locked
       (args0 False True False) cmdline0 context0 (studyArea0 ''10.0'') grassMetadata0
       metadata0 =
     ([Stdout (''/proj/rhessys/templates/template'' @ [CHR 0x0A]),
       Stdout (''/proj/rhessys/flow/world'' @ [CHR 0x0A]),
       ReadCommand (call0 (args0 False True False)) (Inr (Some ''ok'')),
       WriteRHESSysEntry context0 ''surface_flowtable'' ''world_surface.flow''
         (Inl (Blocked ''lock''))],
      Inl (Blocked ''lock''))"
    by (simp add: CreateFlowtable_def check_metadata_def check_resolution_def
        setup_libraries_def write_postconditions_def write_entry_def append_history_def
        and_then_simps run_defs getitem_def float_of_def project0_defs call0_def Let_def
        surfaceFlowtable_def subsurfaceFlowtable_def env_locked_def)
  show ?thesis
    unfolding run by simp
qed

text \<open>
  C4: with the roofs flag set, the computed names are the two different strings
  \<open>base @ ''_surface.flow''\<close> and \<open>base @ ''_subsurface.flow''\<close>, where \<open>base\<close> is the value of
  \<open>worldfile\<close> in the RHESSys section; with the flag unset both names are
  \<open>base @ ''.flow''\<close>. The entries a run writes are these two names, in this order, up
  to the first call to the store that does not return.
\<close>

theorem flowtable_names:
  assumes "CreateFlowtable env args cmdline context studyArea grassMetadata metadata = (tr, res)"
    and "metadata ''worldfile'' = Some base"
  shows "(routeRoofs args \<longrightarrow>
            surfaceFlowtable args base = base @ ''_surface.flow'' \<and>
            subsurfaceFlowtable args base = base @ ''_subsurface.flow'' \<and>
            surfaceFlowtable args base \<noteq> subsurfaceFlowtable args base)
       \<and> (\<not> routeRoofs args \<longrightarrow>
            surfaceFlowtable args base = base @ ''.flow'' \<and>
            subsurfaceFlowtable args base = base @ ''.flow'')
       \<and> (entries_written tr = [] \<or>
          entries_written tr = [(''surface_flowtable'', surfaceFlowtable args base)] \<or>
          entries_written tr =
            [(''surface_flowtable'', surfaceFlowtable args base),
             (''subsurface_flowtable'', subsurfaceFlowtable args base)])"
proof (intro conjI impI)
  assume "routeRoofs args"
  then show "surfaceFlowtable args base = base @ ''_surface.flow''"
    and "subsurfaceFlowtable args base = base @ ''_subsurface.flow''"
    and "surfaceFlowtable args base \<noteq> subsurfaceFlowtable args base"
    by (simp_all add: surfaceFlowtable_def subsurfaceFlowtable_def)
next
  assume "\<not> routeRoofs args"
  then show "surfaceFlowtable args base = base @ ''.flow''"
    and "subsurfaceFlowtable args base = base @ ''.flow''"
    by (simp_all add: surfaceFlowtable_def subsurfaceFlowtable_def)
next
  show "entries_written tr = [] \<or>
          entries_written tr = [(''surface_flowtable'', surfaceFlowtable args base)] \<or>
          entries_written tr =
            [(''surface_flowtable'', surfaceFlowtable args base),
             (''subsurface_flowtable'', subsurfaceFlowtable args base)]"
  proof (cases env args cmdline "context" studyArea grassMetadata metadata
      rule: CreateFlowtable_observed)
    case (aborted e)
    then show ?thesis
      unfolding assms(1) by simp
  next
    case (invoked w demResX paths grassLib cf_bin template base' dem_rast slope_rast
        streams_rast zero_rast call)
    from invoked(6) assms(2) have "base' = base"
      by simp
    with invoked(13) write_postconditions_entries [of env args cmdline "context" base]
    show ?thesis
      unfolding assms(1) by (auto split: sum.splits option.splits)
  qed
qed

theorem flowtable_names_witness:
  "CreateFlowtable (env0 (Some ''ok'')) (args0 False True False) cmdline0 context0
       (studyArea0 ''10.0'') grassMetadata0 metadata0 =
     ([Stdout (''/proj/rhessys/templates/template'' @ [CHR 0x0A]),
       Stdout (''/proj/rhessys/flow/world'' @ [CHR 0x0A]),
       ReadCommand (call0 (args0 False True False)) (Inr (Some ''ok'')),
       WriteRHESSysEntry context0 ''surface_flowtable'' ''world_surface.flow'' (Inr ()),
       WriteRHESSysEntry context0 ''subsurface_flowtable'' ''world_subsurface.flow'' (Inr ()),
       AppendProcessingHistoryItem context0 cmdline0 (Inr ())], Inr ())
   \<and> CreateFlowtable (env0 (Some ''ok'')) (args0 False False False) cmdline0 context0
       (studyArea0 ''10.0'') grassMetadata0 metadata0 =
     ([Stdout (''/proj/rhessys/templates/template'' @ [CHR 0x0A]),
       Stdout (''/proj/rhessys/flow/world'' @ [CHR 0x0A]),
       ReadCommand (call0 (args0 False False False)) (Inr (Some ''ok'')),
       WriteRHESSysEntry context0 ''surface_flowtable'' ''world.flow'' (Inr ()),
       WriteRHESSysEntry context0 ''subsurface_flowtable'' ''world.flow'' (Inr ()),
       AppendProcessingHistoryItem context0 cmdline0 (Inr ())], Inr ())
   \<and> metadata0 ''worldfile'' = Some ''world''
   \<and> routeRoofs (args0 False True False) \<and> \<not> routeRoofs (args0 False False False)
   \<and> surfaceFlowtable (args0 False True False) ''world'' = ''world'' @ ''_surface.flow''
   \<and> subsurfaceFlowtable (args0 False True False) ''world'' = ''world'' @ ''_subsurface.flow''
   \<and> surfaceFlowtable (args0 False True False) ''world''
       \<noteq> subsurfaceFlowtable (args0 False True False) ''world''
   \<and> surfaceFlowtable (args0 False False False) ''world'' = ''world'' @ ''.flow''
   \<and> subsurfaceFlowtable (args0 False False False) ''world'' = ''world'' @ ''.flow''"
proof -
  have roofs: "CreateFlowtable (env0 (Some ''ok'')) (args0 False True False) cmdline0 context0
       (studyArea0 ''10.0'') grassMetadata0 metadata0 =
     ([Stdout (''/proj/rhessys/templates/template'' @ [CHR 0x0A]),
       Stdout (''/proj/rhessys/flow/world'' @ [CHR 0x0A]),
       ReadCommand (call0 (args0 False True False)) (Inr (Some ''ok'')),
       WriteRHESSysEntry context0 ''surface_flowtable'' ''world_surface.flow'' (Inr ()),
       WriteRHESSysEntry context0 ''subsurface_flowtable'' ''world_subsurface.flow'' (Inr ()),
       AppendProcessingHistoryItem context0 cmdline0 (Inr ())], Inr ())"
    by (simp add: CreateFlowtable0)
  have plain: "CreateFlowtable (env0 (Some ''ok'')) (args0 False False False) cmdline0 context0
       (studyArea0 ''10.0'') grassMetadata0 metadata0 =
     ([Stdout (''/proj/rhessys/templates/template'' @ [CHR 0x0A]),
       Stdout (''/proj/rhessys/flow/world'' @ [CHR 0x0A]),
       ReadCommand (call0 (args0 False False False)) (Inr (Some ''ok'')),
       WriteRHESSysEntry context0 ''surface_flowtable'' ''world.flow'' (Inr ()),
       WriteRHESSysEntry context0 ''subsurface_flowtable'' ''world.flow'' (Inr ()),
       AppendProcessingHistoryItem context0 cmdline0 (Inr ())], Inr ())"
    by (simp add: CreateFlowtable0)
  have wf: "metadata0 ''worldfile'' = Some ''world''"
    by (simp add: metadata0_def)
  have flags: "routeRoofs (args0 False True False)" "\<not> routeRoofs (args0 False False False)"
    by (simp_all add: args0_def)
  note a = flowtable_names [OF roofs wf, THEN conjunct1, THEN mp, OF flags(1)]
  note b = flowtable_names [OF plain wf, THEN conjunct2, THEN conjunct1, THEN mp, OF flags(2)]
  show ?thesis
    by (intro conjI roofs plain wf flags a [THEN conjunct1] a [THEN conjunct2, THEN conjunct1]
        a [THEN conjunct2, THEN conjunct2] b [THEN conjunct1] b [THEN conjunct2])
qed

text \<open>
  C10: the presence checks do not look at the values of \<open>dem_res_x\<close> and \<open>dem_res_y\<close>. When
  both keys are present and the value of one of them is not accepted by \<^verbatim>\<open>float\<close>, the run
  invokes no tool, writes no entry and appends no history item; and when the presence
  checks pass, it ends in the \<^verbatim>\<open>ValueError\<close> of the first value that is not accepted,
  without any event.
\<close>

theorem unparseable_resolution_raises:
  assumes "studyArea ''dem_res_x'' = Some sx" and "studyArea ''dem_res_y'' = Some sy"
    and "py_float env sx = None \<or> py_float env sy = None"
  shows "(check_metadata args context studyArea grassMetadata metadata = Inr () \<longrightarrow>
            CreateFlowtable env args cmdline context studyArea grassMetadata metadata =
              ([], Inl (ValueError (if py_float env sx = None then sx else sy))))
       \<and> cf_calls (fst (CreateFlowtable env args cmdline context studyArea grassMetadata
                          metadata)) = []
       \<and> entries_written (fst (CreateFlowtable env args cmdline context studyArea grassMetadata
                          metadata)) = []
       \<and> history_appended (fst (CreateFlowtable env args cmdline context studyArea
                          grassMetadata metadata)) = []
       \<and> (\<exists>e. snd (CreateFlowtable env args cmdline context studyArea grassMetadata metadata)
              = Inl e)"
proof -
  have res: "check_resolution env args studyArea =
      ([], Inl (ValueError (if py_float env sx = None then sx else sy)))"
    unfolding check_resolution_eq [OF assms(1,2)] using assms(3)
    by (auto split: option.splits)
  show ?thesis
  proof (cases args "context" studyArea grassMetadata metadata rule: check_metadata_cases)
    case passed
    from CreateFlowtable_resolution_failed [OF passed res, of cmdline]
    show ?thesis by simp
  next
    case (missing sec k what)
    from CreateFlowtable_check_failed [OF missing(3), of env cmdline]
    show ?thesis by (simp add: missing(3))
  qed
qed

theorem unparseable_resolution_raises_witness:
  "studyArea0 ''ten'' ''dem_res_x'' = Some ''10.0'' \<and> studyArea0 ''ten'' ''dem_res_y'' = Some ''ten''
   \<and> (py_float (env0 (Some ''ok'')) ''10.0'' = None \<or> py_float (env0 (Some ''ok'')) ''ten'' = None)
   \<and> check_metadata (args0 False False True) context0 (studyArea0 ''ten'') grassMetadata0
        metadata0 = Inr ()
   \<and> CreateFlowtable (env0 (Some ''ok'')) (args0 False False True) cmdline0 context0
        (studyArea0 ''ten'') grassMetadata0 metadata0 = ([], Inl (ValueError ''ten''))"
proof -
  have h1: "studyArea0 ''ten'' ''dem_res_x'' = Some ''10.0''"
    and h2: "studyArea0 ''ten'' ''dem_res_y'' = Some ''ten''"
    by (simp_all add: studyArea0_def)
  have h3: "py_float (env0 (Some ''ok'')) ''10.0'' = None \<or> py_float (env0 (Some ''ok'')) ''ten'' = None"
    by (simp add: env0_def py_float0_def)
  from unparseable_resolution_raises [where cmdline = cmdline0, OF h1 h2 h3, THEN conjunct1,
      THEN mp, OF check_metadata0]
  have "CreateFlowtable (env0 (Some ''ok'')) (args0 False False True) cmdline0 context0
        (studyArea0 ''ten'') grassMetadata0 metadata0 = ([], Inl (ValueError ''ten''))"
    by (simp add: env0_def py_float0_def)
  then show ?thesis
    by (intro conjI h1 h2 h3 check_metadata0)
qed

text \<open>
  C2: when both resolutions are accepted by \<^verbatim>\<open>float\<close> and the two numbers differ (Python's
  \<^verbatim>\<open>!=\<close>), the run first writes the warning, which contains both numbers. Without the force
  flag it then exits, so that the warning is its only event and the external tool is not
  invoked. With the force flag it goes on: every invocation of the tool gets the x
  resolution as cell size, and the tool is invoked, once, whenever the two library objects
  of lines 164 to 168 can be built.
\<close>

theorem resolution_mismatch_needs_force:
  assumes "check_metadata args context studyArea grassMetadata metadata = Inr ()"
    and "studyArea ''dem_res_x'' = Some sx" and "py_float env sx = Some x"
    and "studyArea ''dem_res_y'' = Some sy" and "py_float env sy = Some y"
    and "float_ne env x y"
  shows "(\<not> force args \<longrightarrow>
            CreateFlowtable env args cmdline context studyArea grassMetadata metadata =
              ([Stdout (''DEM x resolution ('' @ format_f env x
                        @ '') does not match y resolution ('' @ format_f env y @ '')'')],
               Inl (SystemExit ''Exiting.  Use --force option to override'')))
       \<and> (force args \<longrightarrow>
            (\<exists>rest. fst (CreateFlowtable env args cmdline context studyArea grassMetadata
                            metadata) =
                Stdout (''DEM x resolution ('' @ format_f env x
                        @ '') does not match y resolution ('' @ format_f env y @ '')'') # rest)
            \<and> (\<forall>(c, r) \<in> set (cf_calls (fst (CreateFlowtable env args cmdline context
                                  studyArea grassMetadata metadata))). cf_cellsize c = x)
            \<and> (\<forall>paths grassLib.
                  setup_libraries env args context metadata = ([], Inr (paths, grassLib)) \<longrightarrow>
                  (\<exists>c r. cf_calls (fst (CreateFlowtable env args cmdline context studyArea
                                          grassMetadata metadata)) = [(c, r)]
                         \<and> cf_cellsize c = x)))"
proof (intro conjI impI)
  assume "\<not> force args"
  then have "check_resolution env args studyArea =
      ([Stdout (mismatch_warning env x y)],
       Inl (SystemExit ''Exiting.  Use --force option to override''))"
    unfolding check_resolution_eq [OF assms(2,4)] using assms(3,5,6) by simp
  from CreateFlowtable_resolution_failed [OF assms(1) this, of cmdline]
  show "CreateFlowtable env args cmdline context studyArea grassMetadata metadata =
              ([Stdout (''DEM x resolution ('' @ format_f env x
                        @ '') does not match y resolution ('' @ format_f env y @ '')'')],
               Inl (SystemExit ''Exiting.  Use --force option to override''))"
    unfolding mismatch_warning_def .
next
  assume "force args"
  then have res: "check_resolution env args studyArea =
      ([Stdout (mismatch_warning env x y)], Inr x)"
    unfolding check_resolution_eq [OF assms(2,4)] using assms(3,5,6) by simp
  let ?tr = "fst (CreateFlowtable env args cmdline context studyArea grassMetadata metadata)"
  have "(\<exists>rest. ?tr = Stdout (mismatch_warning env x y) # rest)
        \<and> (\<forall>(c, r) \<in> set (cf_calls ?tr). cf_cellsize c = x)
        \<and> (\<forall>paths grassLib.
                  setup_libraries env args context metadata = ([], Inr (paths, grassLib)) \<longrightarrow>
                  (\<exists>c r. cf_calls ?tr = [(c, r)] \<and> cf_cellsize c = x))"
    using assms(1) res
  proof (cases rule: CreateFlowtable_after_resolution [where cmdline = cmdline])
    case (setup_failed e)
    then show ?thesis by simp
  next
    case (invoked paths grassLib cf_bin template base call rest)
    from invoked(9,10) have "cf_calls ?tr = [(call, read_command env grassLib call)]"
      by (simp add: cf_calls_append)
    with invoked(1,8,9) show ?thesis by simp
  qed
  then show "\<exists>rest. ?tr =
                Stdout (''DEM x resolution ('' @ format_f env x
                        @ '') does not match y resolution ('' @ format_f env y @ '')'') # rest"
    and "\<forall>(c, r) \<in> set (cf_calls ?tr). cf_cellsize c = x"
    and "\<forall>paths grassLib.
                  setup_libraries env args context metadata = ([], Inr (paths, grassLib)) \<longrightarrow>
                  (\<exists>c r. cf_calls ?tr = [(c, r)] \<and> cf_cellsize c = x)"
    unfolding mismatch_warning_def by blast+
qed


theorem resolution_mismatch_needs_force_witness:
  "check_metadata (args0 False False False) context0 (studyArea0 ''10.5'') grassMetadata0
      metadata0 = Inr ()
   \<and> studyArea0 ''10.5'' ''dem_res_x'' = Some ''10.0''
   \<and> py_float (env0 (Some ''ok'')) ''10.0'' = Some ''10.0''
   \<and> studyArea0 ''10.5'' ''dem_res_y'' = Some ''10.5''
   \<and> py_float (env0 (Some ''ok'')) ''10.5'' = Some ''10.5''
   \<and> float_ne (env0 (Some ''ok'')) ''10.0'' ''10.5''
   \<and> \<not> force (args0 False False False) \<and> force (args0 False False True)
   \<and> CreateFlowtable (env0 (Some ''ok'')) (args0 False False False) cmdline0 context0
        (studyArea0 ''10.5'') grassMetadata0 metadata0 =
       ([Stdout ''DEM x resolution (10.000000) does not match y resolution (10.500000)''],
        Inl (SystemExit ''Exiting.  Use --force option to override''))
   \<and> setup_libraries (env0 (Some ''ok'')) (args0 False False True) context0 metadata0 =
       ([], Inr (\<lparr>RHESSYS_TEMPLATES = ''/proj/rhessys/templates'',
                   RHESSYS_FLOW = ''/proj/rhessys/flow''\<rparr>,
                 \<lparr>gc_context = context0, gc_dbase = ''/proj/GRASSData'',
                  gc_location = ''default'', gc_mapset = ''PERMANENT''\<rparr>))
   \<and> (\<exists>c r. cf_calls (fst (CreateFlowtable (env0 (Some ''ok'')) (args0 False False True)
                   cmdline0 context0 (studyArea0 ''10.5'') grassMetadata0 metadata0)) = [(c, r)]
             \<and> cf_cellsize c = ''10.0'')"
proof -
  have h2: "studyArea0 ''10.5'' ''dem_res_x'' = Some ''10.0''"
    and h4: "studyArea0 ''10.5'' ''dem_res_y'' = Some ''10.5''"
    by (simp_all add: studyArea0_def)
  have h3: "py_float (env0 (Some ''ok'')) ''10.0'' = Some ''10.0''"
    and h5: "py_float (env0 (Some ''ok'')) ''10.5'' = Some ''10.5''"
    and h6: "float_ne (env0 (Some ''ok'')) ''10.0'' ''10.5''"
    by (simp_all add: env0_def py_float0_def)
  have f1: "\<not> force (args0 False False False)" and f2: "force (args0 False False True)"
    by (simp_all add: args0_def)
  note a = resolution_mismatch_needs_force
      [where cmdline = cmdline0, OF check_metadata0 h2 h3 h4 h5 h6, THEN conjunct1, THEN mp,
        OF f1]
  note b = resolution_mismatch_needs_force
      [where cmdline = cmdline0, OF check_metadata0 h2 h3 h4 h5 h6, THEN conjunct2, THEN mp,
        OF f2, THEN conjunct2, THEN conjunct2, THEN spec, THEN spec, THEN mp,
        OF setup_libraries0]
  have a': "CreateFlowtable (env0 (Some ''ok'')) (args0 False False False) cmdline0 context0
        (studyArea0 ''10.5'') grassMetadata0 metadata0 =
       ([Stdout ''DEM x resolution (10.000000) does not match y resolution (10.500000)''],
        Inl (SystemExit ''Exiting.  Use --force option to override''))"
    using a by (simp add: env0_def format_f0_def)
  show ?thesis
    by (intro conjI check_metadata0 h2 h3 h4 h5 h6 f1 f2 a' setup_libraries0 b)
qed

text \<open>
  C6, as the code has it: the path of the executable is the project directory of the context
  joined with the value of \<open>cf_bin\<close>. The template path and the output path are not joined
  onto the project directory but onto the two directories \<^verbatim>\<open>RHESSYS_TEMPLATES\<close> and
  \<^verbatim>\<open>RHESSYS_FLOW\<close> of the object \<^verbatim>\<open>RHESSysPaths(args.projectDir, rhessys_dir)\<close>, with the values
  of \<open>template\<close> and \<open>worldfile\<close>. None of the three paths is tested for existence: whatever
  the strings are, once the presence checks and the resolution check have passed and the
  library objects are built, the tool is invoked, once, with exactly these paths.
\<close>

theorem tool_paths:
  assumes "check_metadata args context studyArea grassMetadata metadata = Inr ()"
    and "check_resolution env args studyArea = (w, Inr demResX)"
    and "setup_libraries env args context metadata = ([], Inr (paths, grassLib))"
    and "metadata ''cf_bin'' = Some cf_bin"
    and "metadata ''template'' = Some template"
    and "metadata ''worldfile'' = Some base"
  shows "(\<exists>c r. cf_calls (fst (CreateFlowtable env args cmdline context studyArea
                                grassMetadata metadata)) = [(c, r)]
               \<and> cf_prog c = os_path_join env (context_projectDir context) cf_bin
               \<and> cf_template c = os_path_join env (RHESSYS_TEMPLATES paths) template
               \<and> cf_out c = os_path_join env (RHESSYS_FLOW paths) base)
       \<and> (\<exists>rhessys_dir. metadata ''rhessys_dir'' = Some rhessys_dir
               \<and> RHESSysPaths env (projectDir args) rhessys_dir = Inr paths)"
proof
  let ?tr = "fst (CreateFlowtable env args cmdline context studyArea grassMetadata metadata)"
  from assms(1,2)
  show "\<exists>c r. cf_calls ?tr = [(c, r)]
               \<and> cf_prog c = os_path_join env (context_projectDir context) cf_bin
               \<and> cf_template c = os_path_join env (RHESSYS_TEMPLATES paths) template
               \<and> cf_out c = os_path_join env (RHESSYS_FLOW paths) base"
  proof (cases rule: CreateFlowtable_after_resolution [where cmdline = cmdline])
    case (setup_failed e)
    with assms(3) show ?thesis by simp
  next
    case (invoked paths' grassLib' cf_bin' template' base' call rest)
    from assms(2) have "check_resolution env args studyArea = (w, Inr demResX)" .
    from check_metadata_Inr_iff [THEN iffD1, OF assms(1)]
    obtain sx sy where "studyArea ''dem_res_x'' = Some sx" "studyArea ''dem_res_y'' = Some sy"
      by blast
    from check_resolution_trace [OF this assms(2)] have w: "cf_calls w = []"
      by auto
    from invoked(1) assms(3) have same: "paths' = paths"
      by simp
    from invoked(2-4) assms(4-6) have vals: "cf_bin' = cf_bin" "template' = template"
      "base' = base"
      by simp_all
    have "cf_calls ?tr = [(call, read_command env grassLib' call)]"
      unfolding invoked(9) by (simp add: cf_calls_append w invoked(10))
    with invoked(5-7) show ?thesis
      unfolding same vals by blast
  qed
next
  from check_metadata_Inr_iff [THEN iffD1, OF assms(1)]
  obtain rhessys_dir grass_dbase grass_location grass_mapset where
    keys: "metadata ''rhessys_dir'' = Some rhessys_dir"
      "metadata ''grass_dbase'' = Some grass_dbase"
      "metadata ''grass_location'' = Some grass_location"
      "metadata ''grass_mapset'' = Some grass_mapset"
    by blast
  from assms(3) [unfolded setup_libraries_eq [OF keys]]
  have "RHESSysPaths env (projectDir args) rhessys_dir = Inr paths"
    by (auto split: sum.splits)
  with keys(1)
  show "\<exists>rhessys_dir. metadata ''rhessys_dir'' = Some rhessys_dir
               \<and> RHESSysPaths env (projectDir args) rhessys_dir = Inr paths"
    by blast
qed


theorem tool_paths_witness:
  "check_metadata (args0 False False False) context0 (studyArea0 ''10.0'') grassMetadata0
      metadata0 = Inr ()
   \<and> check_resolution (env0 (Some ''ok'')) (args0 False False False) (studyArea0 ''10.0'')
       = ([], Inr ''10.0'')
   \<and> setup_libraries (env0 (Some ''ok'')) (args0 False False False) context0 metadata0 =
       ([], Inr (\<lparr>RHESSYS_TEMPLATES = ''/proj/rhessys/templates'',
                   RHESSYS_FLOW = ''/proj/rhessys/flow''\<rparr>,
                 \<lparr>gc_context = context0, gc_dbase = ''/proj/GRASSData'',
                  gc_location = ''default'', gc_mapset = ''PERMANENT''\<rparr>))
   \<and> metadata0 ''cf_bin'' = Some ''rhessys/bin/cf''
   \<and> metadata0 ''template'' = Some ''template''
   \<and> metadata0 ''worldfile'' = Some ''world''
   \<and> (\<exists>c r. cf_calls (fst (CreateFlowtable (env0 (Some ''ok'')) (args0 False False False)
                   cmdline0 context0 (studyArea0 ''10.0'') grassMetadata0 metadata0)) = [(c, r)]
          \<and> cf_prog c = ''/proj/rhessys/bin/cf''
          \<and> cf_template c = ''/proj/rhessys/templates/template''
          \<and> cf_out c = ''/proj/rhessys/flow/world'')"
proof -
  have keys: "metadata0 ''cf_bin'' = Some ''rhessys/bin/cf''"
    "metadata0 ''template'' = Some ''template''"
    "metadata0 ''worldfile'' = Some ''world''"
    by (simp_all add: metadata0_def)
  note a = tool_paths [where cmdline = cmdline0,
      OF check_metadata0 check_resolution0 setup_libraries0 keys, THEN conjunct1]
  have "\<exists>c r. cf_calls (fst (CreateFlowtable (env0 (Some ''ok'')) (args0 False False False)
                   cmdline0 context0 (studyArea0 ''10.0'') grassMetadata0 metadata0)) = [(c, r)]
          \<and> cf_prog c = ''/proj/rhessys/bin/cf''
          \<and> cf_template c = ''/proj/rhessys/templates/template''
          \<and> cf_out c = ''/proj/rhessys/flow/world''"
    using a by (simp add: env0_def join0_def context0_def)
  then show ?thesis
    by (intro conjI check_metadata0 check_resolution0 setup_libraries0 keys)
qed

text \<open>
  The statement that each of the three paths is the project directory joined with a metadata
  value fails on the concrete project: the template path and the output path that the tool
  receives are not the project directory joined with the values of \<open>template\<close> and
  \<open>worldfile\<close>.
\<close>

theorem tool_paths_counterexample:
  "metadata0 ''template'' = Some ''template''
   \<and> metadata0 ''worldfile'' = Some ''world''
   \<and> context_projectDir context0 = ''/proj''
   \<and> projectDir (args0 False False False) = ''/proj''
   \<and> map (cf_template \<circ> fst)
        (cf_calls (fst (CreateFlowtable (env0 (Some ''ok'')) (args0 False False False) cmdline0
           context0 (studyArea0 ''10.0'') grassMetadata0 metadata0)))
       = [''/proj/rhessys/templates/template'']
   \<and> map (cf_out \<circ> fst)
        (cf_calls (fst (CreateFlowtable (env0 (Some ''ok'')) (args0 False False False) cmdline0
           context0 (studyArea0 ''10.0'') grassMetadata0 metadata0)))
       = [''/proj/rhessys/flow/world'']
   \<and> os_path_join (env0 (Some ''ok'')) ''/proj'' ''template'' = ''/proj/template''
   \<and> os_path_join (env0 (Some ''ok'')) ''/proj'' ''world'' = ''/proj/world''
   \<and> ''/proj/rhessys/templates/template'' \<noteq> ''/proj/template''
   \<and> ''/proj/rhessys/flow/world'' \<noteq> ''/proj/world''"
proof -
  have calls: "cf_calls (fst (CreateFlowtable (env0 (Some ''ok'')) (args0 False False False)
          cmdline0 context0 (studyArea0 ''10.0'') grassMetadata0 metadata0))
        = [(call0 (args0 False False False), Inr (Some ''ok''))]"
    by (simp add: CreateFlowtable0)
  show ?thesis
    unfolding calls
    by (simp add: call0_def metadata0_def context0_def args0_def env0_def join0_def)
qed

end
